theory Spec2Isabelle
  imports Main "HOL-Library.Sublist"
begin

section \<open>JavaScript values and exceptions\<close>

text \<open>
  The data that flows through the converter is what \<^verbatim>\<open>JSON.parse\<close>, PapaParse and
  \<^verbatim>\<open>yaml.load\<close> produce, plus \<^verbatim>\<open>undefined\<close> and \<^verbatim>\<open>NaN\<close>, which an evaluated
  expression can return. Finite numbers are integers here: the functions below only
  move numbers around and test them for truthiness.

  \<open>JObj props\<close> is an object whose prototype is \<^verbatim>\<open>Object.prototype\<close>, as every object
  literal, spread copy and parsed object is; \<open>props\<close> are its own enumerable
  properties in enumeration order (array-index names first, in ascending order, then
  the other names in the order of their creation), and no name occurs twice.
  \<open>JWithProto p props\<close> is an object whose prototype has been replaced by \<open>p\<close>, which
  is \<open>JNull\<close> or an object. \<open>JBuiltin name\<close> is an object of the engine itself, known by
  its name only: \<^verbatim>\<open>Object.prototype\<close> and the functions it holds.
\<close>

datatype jsval =
    JUndefined
  | JNull
  | JBool bool
  | JNum int
  | JNaN
  | JStr string
  | JArr "jsval list"
  | JObj "(string \<times> jsval) list"
  | JWithProto jsval "(string \<times> jsval) list"
  | JBuiltin string

text \<open>
  A thrown \<^verbatim>\<open>Error\<close>; \<open>message\<close> is what \<^verbatim>\<open>${(error as Error).message}\<close> renders.
  \<open>OutsideModel\<close> is not a throw of the program: it ends the runs that this embedding
  does not follow, those in which a property is looked up or assigned through a
  prototype that is an array or an object of the engine other than
  \<^verbatim>\<open>Object.prototype\<close>. What such a lookup finds depends on the builtin objects of the
  engine.
\<close>

datatype exn = Error (message: string) | OutsideModel

type_synonym jsfun = "jsval \<Rightarrow> exn + jsval"

text \<open>
  \<^verbatim>\<open>new Function('data', body)\<close> belongs to the JavaScript engine, not to the
  repository: it is a parameter. It either throws (a syntax error in \<open>body\<close>) or yields a
  function that, called on a value, throws or returns a value. The expressions are
  taken to be free of side effects on their argument.
\<close>

type_synonym compiler = "string \<Rightarrow> exn + jsfun"

fun truthy :: "jsval \<Rightarrow> bool" where
  "truthy JUndefined = False"
| "truthy JNull = False"
| "truthy (JBool b) = b"
| "truthy (JNum n) = (n \<noteq> 0)"
| "truthy JNaN = False"
| "truthy (JStr s) = (s \<noteq> [])"
| "truthy (JArr xs) = True"
| "truthy (JObj kvs) = True"
| "truthy (JWithProto p kvs) = True"
| "truthy (JBuiltin b) = True"

text \<open>
  \<^verbatim>\<open>typeof v === 'object' && v !== null\<close>. The functions of \<^verbatim>\<open>Object.prototype\<close> have
  type \<^verbatim>\<open>'function'\<close>.
\<close>

fun isObjectLike :: "jsval \<Rightarrow> bool" where
  "isObjectLike (JArr xs) = True"
| "isObjectLike (JObj kvs) = True"
| "isObjectLike (JWithProto p kvs) = True"
| "isObjectLike (JBuiltin b) = (b = ''Object.prototype'')"
| "isObjectLike v = False"

text \<open>\<^verbatim>\<open>Array.isArray(v)\<close>\<close>

fun isArray :: "jsval \<Rightarrow> bool" where
  "isArray (JArr xs) = True"
| "isArray v = False"

text \<open>Decimal rendering of an array index, as a property name.\<close>

fun digit :: "nat \<Rightarrow> char" where
  "digit n = char_of (48 + n)"

function indexKey :: "nat \<Rightarrow> string" where
  "indexKey n = (if n < 10 then [digit n] else indexKey (n div 10) @ [digit (n mod 10)])"
  by pat_completeness auto
termination
  by (relation "measure id") auto

text \<open>
  The own enumerable properties of a value: what \<^verbatim>\<open>{ ...item }\<close>,
  \<^verbatim>\<open>Object.keys\<close> and \<^verbatim>\<open>Object.entries\<close> see. Arrays and strings have their indices,
  the other primitives and the objects of the engine have none.
\<close>

fun ownProps :: "jsval \<Rightarrow> (string \<times> jsval) list" where
  "ownProps (JObj kvs) = kvs"
| "ownProps (JWithProto p kvs) = kvs"
| "ownProps (JArr xs) = zip (map indexKey [0..<length xs]) xs"
| "ownProps (JStr s) = zip (map indexKey [0..<length s]) (map (\<lambda>c. JStr [c]) s)"
| "ownProps v = []"

subsection \<open>Property lookup and assignment\<close>

text \<open>
  The members of \<^verbatim>\<open>Object.prototype\<close>, which every plain object inherits. All are
  functions except \<^verbatim>\<open>__proto__\<close>, an accessor: its getter returns the prototype of the
  object it is read on, its setter replaces that prototype when it is given an object
  or \<^verbatim>\<open>null\<close> and does nothing when it is given another primitive.
\<close>

definition objectPrototypeNames :: "string list" where
  "objectPrototypeNames =
     [''constructor'', ''__defineGetter__'', ''__defineSetter__'', ''hasOwnProperty'',
      ''__lookupGetter__'', ''__lookupSetter__'', ''isPrototypeOf'', ''propertyIsEnumerable'',
      ''toString'', ''valueOf'', ''__proto__'', ''toLocaleString'']"

datatype lookup = Absent | Present jsval | Beyond

text \<open>
  \<open>fromObjectPrototype k p\<close>: the key \<open>k\<close> looked up on \<^verbatim>\<open>Object.prototype\<close> itself, for
  a receiver whose prototype is \<open>p\<close>.
\<close>

definition fromObjectPrototype :: "string \<Rightarrow> jsval \<Rightarrow> lookup" where
  "fromObjectPrototype k p =
     (if k = ''__proto__'' then Present p
      else if k \<in> set objectPrototypeNames then Present (JBuiltin (''Object.prototype.'' @ k))
      else Absent)"

text \<open>
  The lookup of \<open>k\<close> along a prototype chain, from the object \<open>v\<close> of the chain on; \<open>p\<close>
  is the prototype of the receiver. \<open>Beyond\<close>: the chain enters an array or an object
  of the engine other than \<^verbatim>\<open>Object.prototype\<close>.
\<close>

fun chainLookup :: "string \<Rightarrow> jsval \<Rightarrow> jsval \<Rightarrow> lookup" where
  "chainLookup k p (JObj kvs) =
     (case map_of kvs k of Some v \<Rightarrow> Present v | None \<Rightarrow> fromObjectPrototype k p)"
| "chainLookup k p (JWithProto q kvs) =
     (case map_of kvs k of Some v \<Rightarrow> Present v | None \<Rightarrow> chainLookup k p q)"
| "chainLookup k p JNull = Absent"
| "chainLookup k p (JBuiltin b) =
     (if b = ''Object.prototype'' then fromObjectPrototype k p else Beyond)"
| "chainLookup k p v = Beyond"

text \<open>
  \<^verbatim>\<open>key in obj\<close> followed by \<^verbatim>\<open>obj[key]\<close>, for an object \<open>obj\<close>: \<open>Absent\<close> when
  \<^verbatim>\<open>key in obj\<close> is false, \<open>Present v\<close> when it is true and \<^verbatim>\<open>obj[key]\<close> is \<open>v\<close>.
\<close>

fun lookupProp :: "string \<Rightarrow> jsval \<Rightarrow> lookup" where
  "lookupProp k (JObj kvs) = chainLookup k (JBuiltin ''Object.prototype'') (JObj kvs)"
| "lookupProp k (JWithProto p kvs) = chainLookup k p (JWithProto p kvs)"
| "lookupProp k v = Beyond"

text \<open>An array index as a property name: the canonical decimal of a number below \<open>2^32 - 1\<close>.\<close>

definition digitValue :: "char \<Rightarrow> nat option" where
  "digitValue c =
     map_of [(CHR ''0'', 0), (CHR ''1'', 1), (CHR ''2'', 2), (CHR ''3'', 3), (CHR ''4'', 4),
             (CHR ''5'', 5), (CHR ''6'', 6), (CHR ''7'', 7), (CHR ''8'', 8), (CHR ''9'', 9)] c"

fun decimal :: "nat \<Rightarrow> string \<Rightarrow> nat option" where
  "decimal acc [] = Some acc"
| "decimal acc (c # cs) =
     (case digitValue c of None \<Rightarrow> None | Some d \<Rightarrow> decimal (10 * acc + d) cs)"

definition arrayIndex :: "string \<Rightarrow> nat option" where
  "arrayIndex k =
     (if k = [] \<or> (hd k = CHR ''0'' \<and> tl k \<noteq> []) then None
      else (case decimal 0 k of
              None \<Rightarrow> None
            | Some n \<Rightarrow> if n < 4294967295 then Some n else None))"

text \<open>
  A new own property takes its place in the enumeration order: an array index before
  the first larger index and before the names that are not indices, any other name at
  the end.
\<close>

fun insertNew :: "string \<Rightarrow> jsval \<Rightarrow> (string \<times> jsval) list \<Rightarrow> (string \<times> jsval) list" where
  "insertNew k v [] = [(k, v)]"
| "insertNew k v ((k', v') # kvs) =
     (case arrayIndex k of
        None \<Rightarrow> (k', v') # insertNew k v kvs
      | Some n \<Rightarrow>
          (case arrayIndex k' of
             None \<Rightarrow> (k, v) # (k', v') # kvs
           | Some m \<Rightarrow> if n < m then (k, v) # (k', v') # kvs else (k', v') # insertNew k v kvs))"

text \<open>The value of an own property is replaced where the property stands.\<close>

fun updateOwn :: "string \<Rightarrow> jsval \<Rightarrow> (string \<times> jsval) list \<Rightarrow> (string \<times> jsval) list" where
  "updateOwn k v [] = []"
| "updateOwn k v ((k', v') # kvs) =
     (if k = k' then (k, v) # kvs else (k', v') # updateOwn k v kvs)"

text \<open>
  What an assignment \<^verbatim>\<open>obj[key] = v\<close> does when \<open>obj\<close> has no own property \<open>key\<close>, by
  what the prototype chain holds: a data property or nothing, and \<open>obj\<close> gets a new own
  property; the accessor \<^verbatim>\<open>__proto__\<close> of \<^verbatim>\<open>Object.prototype\<close>, and its setter runs.
\<close>

datatype assignment = CreateOwn | ProtoSetter | BeyondSet

fun resolveSet :: "string \<Rightarrow> jsval \<Rightarrow> assignment" where
  "resolveSet k (JObj kvs) =
     (if k = ''__proto__'' \<and> map_of kvs k = None then ProtoSetter else CreateOwn)"
| "resolveSet k (JWithProto q kvs) =
     (if map_of kvs k \<noteq> None then CreateOwn else resolveSet k q)"
| "resolveSet k JNull = CreateOwn"
| "resolveSet k (JBuiltin b) =
     (if b = ''Object.prototype'' then (if k = ''__proto__'' then ProtoSetter else CreateOwn)
      else BeyondSet)"
| "resolveSet k v = BeyondSet"

text \<open>The values that the setter of \<^verbatim>\<open>__proto__\<close> accepts: objects, functions and \<^verbatim>\<open>null\<close>.\<close>

fun canBePrototype :: "jsval \<Rightarrow> bool" where
  "canBePrototype JNull = True"
| "canBePrototype (JArr xs) = True"
| "canBePrototype (JObj kvs) = True"
| "canBePrototype (JWithProto p kvs) = True"
| "canBePrototype (JBuiltin b) = True"
| "canBePrototype v = False"

definition withProto :: "jsval \<Rightarrow> (string \<times> jsval) list \<Rightarrow> jsval" where
  "withProto p kvs = (if p = JBuiltin ''Object.prototype'' then JObj kvs else JWithProto p kvs)"

text \<open>An own property is written: replaced if there is one, created otherwise.\<close>

definition putOwn :: "string \<Rightarrow> jsval \<Rightarrow> (string \<times> jsval) list \<Rightarrow> (string \<times> jsval) list" where
  "putOwn k v kvs = (if map_of kvs k \<noteq> None then updateOwn k v kvs else insertNew k v kvs)"

text \<open>
  \<^verbatim>\<open>obj[key] = v\<close> on an object with prototype \<open>p\<close> and own properties \<open>kvs\<close>; \<open>None\<close>
  when the prototype chain leaves the embedding.
\<close>

definition assignTo :: "string \<Rightarrow> jsval \<Rightarrow> jsval \<Rightarrow> (string \<times> jsval) list \<Rightarrow> jsval option" where
  "assignTo k v p kvs =
     (if map_of kvs k \<noteq> None then Some (withProto p (putOwn k v kvs))
      else (case resolveSet k p of
              CreateOwn \<Rightarrow> Some (withProto p (putOwn k v kvs))
            | ProtoSetter \<Rightarrow> Some (if canBePrototype v then withProto v kvs else withProto p kvs)
            | BeyondSet \<Rightarrow> None))"

fun assign :: "string \<Rightarrow> jsval \<Rightarrow> jsval \<Rightarrow> jsval option" where
  "assign k v (JObj kvs) = assignTo k v (JBuiltin ''Object.prototype'') kvs"
| "assign k v (JWithProto p kvs) = assignTo k v p kvs"
| "assign k v obj = None"

text \<open>
  \<^verbatim>\<open>try { ... } catch (error) { throw new Error(`<prefix>${error.message}`) }\<close>
\<close>

definition rethrow :: "string \<Rightarrow> exn + 'a \<Rightarrow> exn + 'a" where
  "rethrow pre r =
     (case r of
        Inl (Error m) \<Rightarrow> Inl (Error (pre @ m))
      | Inl OutsideModel \<Rightarrow> Inl OutsideModel
      | Inr v \<Rightarrow> Inr v)"

section \<open>The rule engine (transformations.ts)\<close>

record calculate_spec =
  field :: string
  expression :: string

text \<open>
  \<^verbatim>\<open>FilterRule | MapRule | CalculatedFieldRule\<close>: one rule object of the YAML file. A
  key that the object does not carry is \<open>None\<close>; \<^verbatim>\<open>'condition' in rule\<close> is
  \<open>condition rule \<noteq> None\<close>.
\<close>

record rule =
  name :: string
  enabled :: "bool option"
  condition :: "string option"
  mapping :: "(string \<times> string) list option"
  calculate :: "calculate_spec option"

text \<open>\<^verbatim>\<open>data.filter(item => filterFn(item))\<close>: items in order, the first throw aborts.\<close>

fun filterItems :: "jsfun \<Rightarrow> jsval list \<Rightarrow> exn + jsval list" where
  "filterItems filterFn [] = Inr []"
| "filterItems filterFn (item # items) =
     (case filterFn item of
        Inl e \<Rightarrow> Inl e
      | Inr v \<Rightarrow>
          (case filterItems filterFn items of
             Inl e \<Rightarrow> Inl e
           | Inr kept \<Rightarrow> Inr (if truthy v then item # kept else kept)))"

definition applyFilterRule :: "compiler \<Rightarrow> jsval \<Rightarrow> string \<Rightarrow> exn + jsval" where
  "applyFilterRule compile data cond =
     rethrow ''Failed to apply filter rule: ''
       (case data of
          JArr items \<Rightarrow>
            (case compile (''return '' @ cond @ '';'') of
               Inl e \<Rightarrow> Inl e
             | Inr filterFn \<Rightarrow>
                 (case filterItems filterFn items of
                    Inl e \<Rightarrow> Inl e
                  | Inr kept \<Rightarrow> Inr (JArr kept)))
        | _ \<Rightarrow> Inr data)"

text \<open>
  The loop over \<^verbatim>\<open>Object.entries(mapping)\<close> on the copy \<open>newItem\<close>: the entries are
  applied one after the other to the same copy. \<^verbatim>\<open>oldField in newItem\<close> also holds
  for what the copy inherits.
\<close>

fun applyEntries :: "(string \<times> string) list \<Rightarrow> jsval \<Rightarrow> jsval option" where
  "applyEntries [] newItem = Some newItem"
| "applyEntries ((newField, oldField) # entries) newItem =
     (case lookupProp oldField newItem of
        Beyond \<Rightarrow> None
      | Absent \<Rightarrow> applyEntries entries newItem
      | Present v \<Rightarrow>
          (case assign newField v newItem of
             None \<Rightarrow> None
           | Some newItem' \<Rightarrow> applyEntries entries newItem'))"

text \<open>\<^verbatim>\<open>data.map(item => { const newItem = { ...item }; ... })\<close>\<close>

fun mapItems :: "(string \<times> string) list \<Rightarrow> jsval list \<Rightarrow> jsval list option" where
  "mapItems mp [] = Some []"
| "mapItems mp (item # items) =
     (case applyEntries mp (JObj (ownProps item)) of
        None \<Rightarrow> None
      | Some newItem \<Rightarrow>
          (case mapItems mp items of
             None \<Rightarrow> None
           | Some done \<Rightarrow> Some (newItem # done)))"

definition applyMappingRule :: "jsval \<Rightarrow> (string \<times> string) list \<Rightarrow> exn + jsval" where
  "applyMappingRule data mp =
     rethrow ''Failed to apply mapping rule: ''
       (case data of
          JArr items \<Rightarrow>
            (case mapItems mp items of
               None \<Rightarrow> Inl OutsideModel
             | Some done \<Rightarrow> Inr (JArr done))
        | _ \<Rightarrow>
            (if isObjectLike data
             then (case applyEntries mp (JObj (ownProps data)) of
                     None \<Rightarrow> Inl OutsideModel
                   | Some newData \<Rightarrow> Inr newData)
             else Inr data))"

fun calcItems :: "jsfun \<Rightarrow> string \<Rightarrow> jsval list \<Rightarrow> exn + jsval list" where
  "calcItems calculateFn fieldName [] = Inr []"
| "calcItems calculateFn fieldName (item # items) =
     (case calculateFn (JObj (ownProps item)) of
        Inl e \<Rightarrow> Inl e
      | Inr v \<Rightarrow>
          (case assign fieldName v (JObj (ownProps item)) of
             None \<Rightarrow> Inl OutsideModel
           | Some newItem \<Rightarrow>
               (case calcItems calculateFn fieldName items of
                  Inl e \<Rightarrow> Inl e
                | Inr done \<Rightarrow> Inr (newItem # done))))"

definition applyCalculationRule :: "compiler \<Rightarrow> jsval \<Rightarrow> string \<Rightarrow> string \<Rightarrow> exn + jsval" where
  "applyCalculationRule compile data fieldName expr =
     rethrow ''Failed to apply calculation rule: ''
       (case compile (''return '' @ expr @ '';'') of
          Inl e \<Rightarrow> Inl e
        | Inr calculateFn \<Rightarrow>
            (case data of
               JArr items \<Rightarrow>
                 (case calcItems calculateFn fieldName items of
                    Inl e \<Rightarrow> Inl e
                  | Inr done \<Rightarrow> Inr (JArr done))
             | _ \<Rightarrow>
                 (if isObjectLike data
                  then (case calculateFn (JObj (ownProps data)) of
                          Inl e \<Rightarrow> Inl e
                        | Inr v \<Rightarrow>
                            (case assign fieldName v (JObj (ownProps data)) of
                               None \<Rightarrow> Inl OutsideModel
                             | Some newData \<Rightarrow> Inr newData))
                  else Inr data)))"

text \<open>The \<^verbatim>\<open>if / else if / else if\<close> chain of the loop body.\<close>

definition dispatch :: "compiler \<Rightarrow> rule \<Rightarrow> jsval \<Rightarrow> exn + jsval" where
  "dispatch compile r result =
     (case condition r of
        Some c \<Rightarrow> applyFilterRule compile result c
      | None \<Rightarrow>
          (case mapping r of
             Some m \<Rightarrow> applyMappingRule result m
           | None \<Rightarrow>
               (case calculate r of
                  Some c \<Rightarrow> applyCalculationRule compile result (field c) (expression c)
                | None \<Rightarrow> Inr result)))"

text \<open>\<^verbatim>\<open>for (const rule of config.transformations)\<close>\<close>

fun applyRules :: "compiler \<Rightarrow> rule list \<Rightarrow> jsval \<Rightarrow> exn + jsval" where
  "applyRules compile [] result = Inr result"
| "applyRules compile (r # rules) result =
     (if enabled r = Some False then applyRules compile rules result
      else (case dispatch compile r result of
              Inl e \<Rightarrow> Inl e
            | Inr result' \<Rightarrow> applyRules compile rules result'))"

text \<open>
  What \<^verbatim>\<open>config.transformations\<close> can be: an array of rule objects, or any other
  value (\<^verbatim>\<open>undefined\<close> when the key is missing).
\<close>

datatype transformations_value = NotArray jsval | RuleArray "rule list"

text \<open>
  What \<^verbatim>\<open>yaml.load\<close> returns: \<^verbatim>\<open>undefined\<close> for an empty file, \<^verbatim>\<open>null\<close> for a
  null document, or a value on which reading the property \<^verbatim>\<open>transformations\<close> is
  defined (a mapping; a scalar or a sequence reads as \<^verbatim>\<open>undefined\<close>).
\<close>

datatype document = DocUndefined | DocNull | Doc transformations_value

text \<open>
  \<^verbatim>\<open>config.transformations\<close>. Reading a property of \<^verbatim>\<open>undefined\<close> or \<^verbatim>\<open>null\<close> throws a
  TypeError; the text is the one of V8, the engine of the extension host.
\<close>

fun readTransformations :: "document \<Rightarrow> exn + transformations_value" where
  "readTransformations DocUndefined =
     Inl (Error ''Cannot read properties of undefined (reading 'transformations')'')"
| "readTransformations DocNull =
     Inl (Error ''Cannot read properties of null (reading 'transformations')'')"
| "readTransformations (Doc t) = Inr t"

text \<open>
  \<open>loadYaml\<close> stands for \<^verbatim>\<open>yaml.load(fs.readFileSync(yamlFilePath, 'utf8'))\<close>: the
  file system and the YAML parser are outside the repository.
\<close>

definition applyYamlTransformations ::
  "(string \<Rightarrow> exn + document) \<Rightarrow> compiler \<Rightarrow> jsval \<Rightarrow> string \<Rightarrow> exn + jsval" where
  "applyYamlTransformations loadYaml compile data yamlFilePath =
     rethrow ''Failed to apply YAML transformations: ''
       (case loadYaml yamlFilePath of
          Inl e \<Rightarrow> Inl e
        | Inr config \<Rightarrow>
            (case readTransformations config of
               Inl e \<Rightarrow> Inl e
             | Inr (NotArray v) \<Rightarrow>
                 Inl (Error ''Invalid YAML transformation file: missing or invalid transformations array'')
             | Inr (RuleArray rules) \<Rightarrow> applyRules compile rules data))"

section \<open>The structural flattener (utils.ts, jsonToCsv)\<close>

text \<open>\<^verbatim>\<open>allKeys.add(key)\<close> on a \<^verbatim>\<open>Set\<close>, which keeps the order of first insertion.\<close>

definition addKey :: "string list \<Rightarrow> string \<Rightarrow> string list" where
  "addKey keys key = (if key \<in> set keys then keys else keys @ [key])"

definition allKeys :: "jsval list \<Rightarrow> string list" where
  "allKeys jsonData =
     foldl (\<lambda>keys item.
              if isObjectLike item then foldl addKey keys (map fst (ownProps item)) else keys)
       [] jsonData"

text \<open>A sequence of assignments \<^verbatim>\<open>obj[key] = v\<close> on the same object.\<close>

fun assignAll :: "(string \<times> jsval) list \<Rightarrow> jsval \<Rightarrow> jsval option" where
  "assignAll [] obj = Some obj"
| "assignAll ((k, v) # kvs) obj =
     (case assign k v obj of None \<Rightarrow> None | Some obj' \<Rightarrow> assignAll kvs obj')"

text \<open>
  The body of \<^verbatim>\<open>jsonData.map(item => ...)\<close>: \<open>flatItem\<close> starts as \<^verbatim>\<open>{}\<close>, gets the
  empty string under every key of \<open>keys\<close>, then the values of the item. \<open>stringify\<close> is
  \<^verbatim>\<open>JSON.stringify\<close>, a builtin of the engine.
\<close>

definition flattenItem :: "(jsval \<Rightarrow> string) \<Rightarrow> string list \<Rightarrow> jsval \<Rightarrow> jsval option" where
  "flattenItem stringify keys item =
     (case assignAll (map (\<lambda>key. (key, JStr [])) keys) (JObj []) of
        None \<Rightarrow> None
      | Some flatItem \<Rightarrow>
          (if isObjectLike item
           then assignAll
                  (map (\<lambda>(key, val).
                          (key, if isObjectLike val then JStr (stringify val) else val))
                     (ownProps item))
                  flatItem
           else Some flatItem))"

fun flattenAll :: "(jsval \<Rightarrow> string) \<Rightarrow> string list \<Rightarrow> jsval list \<Rightarrow> jsval list option" where
  "flattenAll stringify keys [] = Some []"
| "flattenAll stringify keys (item # items) =
     (case flattenItem stringify keys item of
        None \<Rightarrow> None
      | Some flatItem \<Rightarrow>
          (case flattenAll stringify keys items of
             None \<Rightarrow> None
           | Some done \<Rightarrow> Some (flatItem # done)))"

text \<open>The elements of an array.\<close>

fun elements :: "jsval \<Rightarrow> jsval list" where
  "elements (JArr xs) = xs"
| "elements v = []"

text \<open>
  The branch \<^verbatim>\<open>if (Array.isArray(jsonData))\<close>. \<open>csvStringify\<close> is the \<^verbatim>\<open>csv-stringify\<close>
  package called with \<^verbatim>\<open>{ header: true, delimiter }\<close> on the flattened records.
\<close>

definition arrayToCsv ::
  "(jsval \<Rightarrow> string) \<Rightarrow> (jsval list \<Rightarrow> string \<Rightarrow> exn + string) \<Rightarrow>
   jsval list \<Rightarrow> string \<Rightarrow> exn + string" where
  "arrayToCsv stringify csvStringify items delimiter =
     (if items = [] then Inr []
      else (case flattenAll stringify (allKeys items) items of
              None \<Rightarrow> Inl OutsideModel
            | Some flattenedData \<Rightarrow>
                rethrow ''Failed to convert JSON to CSV: '' (csvStringify flattenedData delimiter)))"

text \<open>
  \<open>parseJson\<close> is \<^verbatim>\<open>JSON.parse\<close>. The single-object branch calls the function again on
  the text of the one-element array; the result \<open>None\<close> is a call that never returns.
\<close>

partial_function (option) jsonToCsv ::
  "(string \<Rightarrow> exn + jsval) \<Rightarrow> (jsval \<Rightarrow> string) \<Rightarrow>
   (jsval list \<Rightarrow> string \<Rightarrow> exn + string) \<Rightarrow>
   string \<Rightarrow> string \<Rightarrow> (exn + string) option" where
  "jsonToCsv parseJson stringify csvStringify jsonString delimiter =
     (case parseJson jsonString of
        Inl e \<Rightarrow> Some (rethrow ''Failed to convert JSON to CSV: '' (Inl e))
      | Inr jsonData \<Rightarrow>
          (if isArray jsonData
           then Some (arrayToCsv stringify csvStringify (elements jsonData) delimiter)
           else if isObjectLike jsonData
           then Option.bind
                  (jsonToCsv parseJson stringify csvStringify (stringify (JArr [jsonData])) delimiter)
                  (\<lambda>r. Some (rethrow ''Failed to convert JSON to CSV: '' r))
           else Some (rethrow ''Failed to convert JSON to CSV: ''
                  (Inl (Error ''Invalid JSON structure. Expected an array of objects or a single object.'')))))"

section \<open>JSON to Excel (utils.ts, jsonToExcel)\<close>

text \<open>The regular files of the file system: path to content.\<close>

type_synonym fs = "string \<Rightarrow> string option"

definition existsSync :: "fs \<Rightarrow> string \<Rightarrow> bool" where
  "existsSync files path = (files path \<noteq> None)"

text \<open>\<^verbatim>\<open>fs.readFileSync(path, 'utf8')\<close>; the text of the error is Node's.\<close>

definition readFileSync :: "fs \<Rightarrow> string \<Rightarrow> exn + string" where
  "readFileSync files path =
     (case files path of
        None \<Rightarrow> Inl (Error (''ENOENT: no such file or directory, open '' @ [CHR 0x27] @ path @ [CHR 0x27]))
      | Some content \<Rightarrow> Inr content)"

text \<open>
  \<open>toWorkbook\<close> stands for the calls into the \<^verbatim>\<open>xlsx\<close> package (\<^verbatim>\<open>book_new\<close>,
  \<^verbatim>\<open>json_to_sheet\<close>, \<^verbatim>\<open>book_append_sheet\<close> and the encoding done by \<^verbatim>\<open>writeFile\<close>): the
  bytes of the workbook, or a throw. The result is the file system after the call.
\<close>

definition writeWorkbook ::
  "(jsval list \<Rightarrow> exn + string) \<Rightarrow> fs \<Rightarrow> jsval list \<Rightarrow> string \<Rightarrow> exn + fs" where
  "writeWorkbook toWorkbook files items outputPath =
     (case toWorkbook items of
        Inl e \<Rightarrow> rethrow ''Failed to convert JSON to Excel: '' (Inl e)
      | Inr bytes \<Rightarrow> Inr (files(outputPath \<mapsto> bytes)))"

partial_function (option) jsonToExcel ::
  "(string \<Rightarrow> exn + jsval) \<Rightarrow> (jsval \<Rightarrow> string) \<Rightarrow> (jsval list \<Rightarrow> exn + string) \<Rightarrow>
   fs \<Rightarrow> string \<Rightarrow> string \<Rightarrow> (exn + fs) option" where
  "jsonToExcel parseJson stringify toWorkbook files jsonFilePath outputPath =
     (case readFileSync files jsonFilePath of
        Inl e \<Rightarrow> Some (rethrow ''Failed to convert JSON to Excel: '' (Inl e))
      | Inr jsonString \<Rightarrow>
          (case parseJson jsonString of
             Inl e \<Rightarrow> Some (rethrow ''Failed to convert JSON to Excel: '' (Inl e))
           | Inr jsonData \<Rightarrow>
               (if isArray jsonData
                then Some (writeWorkbook toWorkbook files (elements jsonData) outputPath)
                else if isObjectLike jsonData
                then Option.bind
                       (jsonToExcel parseJson stringify toWorkbook files
                          (stringify (JArr [jsonData])) outputPath)
                       (\<lambda>r. Some (rethrow ''Failed to convert JSON to Excel: '' r))
                else Some (rethrow ''Failed to convert JSON to Excel: ''
                       (Inl (Error ''Invalid JSON structure. Expected an array of objects or a single object.''))))))"

section \<open>The batch conversion loop (batchConversion.ts)\<close>

datatype file_type = Csv | Json | Excel | Unknown

text \<open>\<^verbatim>\<open>'csv' | 'json' | 'excel'\<close>, the type of \<^verbatim>\<open>targetFormat\<close>.\<close>

datatype target_format = ToCsv | ToJson | ToExcel

record FileConversionInfo =
  filePath :: string
  fileName :: string
  fileType :: file_type
  selected :: bool

record ConversionOptions =
  targetFormat :: target_format
  preserveTypes :: bool
  overwriteFiles :: bool
  customTransformation :: "string option"
  yamlTransformationPath :: "string option"

text \<open>The \<^verbatim>\<open>default\<close> branch of the switch is excluded by the type of its argument.\<close>

fun getFileExtension :: "target_format \<Rightarrow> string" where
  "getFileExtension ToCsv = ''.csv''"
| "getFileExtension ToJson = ''.json''"
| "getFileExtension ToExcel = ''.xlsx''"

fun formatName :: "target_format \<Rightarrow> string" where
  "formatName ToCsv = ''csv''"
| "formatName ToJson = ''json''"
| "formatName ToExcel = ''excel''"

fun typeName :: "file_type \<Rightarrow> string" where
  "typeName Csv = ''csv''"
| "typeName Json = ''json''"
| "typeName Excel = ''excel''"
| "typeName Unknown = ''unknown''"

fun getConversionCommandId :: "file_type \<Rightarrow> target_format \<Rightarrow> string option" where
  "getConversionCommandId Unknown t = None"
| "getConversionCommandId Csv ToJson = Some ''dataconverter.convertToJSON''"
| "getConversionCommandId Csv ToExcel = Some ''dataconverter.convertToExcel''"
| "getConversionCommandId Json ToCsv = Some ''dataconverter.convertToCSV''"
| "getConversionCommandId Json ToExcel = Some ''dataconverter.convertToExcel''"
| "getConversionCommandId Excel ToCsv = Some ''dataconverter.convertToCSV''"
| "getConversionCommandId Excel ToJson = Some ''dataconverter.convertToJSON''"
| "getConversionCommandId s t = None"

text \<open>ASCII lower case: the \<^verbatim>\<open>i\<close> flag of the regular expression.\<close>

definition lowerChar :: "char \<Rightarrow> char" where
  "lowerChar c =
     (if (65::nat) \<le> of_char c \<and> (of_char c :: nat) \<le> 90
      then char_of ((of_char c :: nat) + 32) else c)"

definition endsWithCI :: "string \<Rightarrow> string \<Rightarrow> bool" where
  "endsWithCI ext path = suffix ext (map lowerChar path)"

text \<open>\<^verbatim>\<open>filePath.replace(/\.(csv|json|xlsx|xls)$/i, fileExt)\<close>\<close>

definition replaceExtension :: "string \<Rightarrow> string \<Rightarrow> string" where
  "replaceExtension path fileExt =
     (if endsWithCI ''.csv'' path then take (length path - 4) path @ fileExt
      else if endsWithCI ''.json'' path then take (length path - 5) path @ fileExt
      else if endsWithCI ''.xlsx'' path then take (length path - 5) path @ fileExt
      else if endsWithCI ''.xls'' path then take (length path - 4) path @ fileExt
      else path)"

text \<open>
  The host of the extension. \<open>runCommand\<close> is \<^verbatim>\<open>vscode.commands.executeCommand\<close> on the
  file, \<open>postProcess\<close> is the transformation step that follows it in
  \<^verbatim>\<open>executeConversion\<close>; both return the thrown error, if any, and the file system they
  leave.
\<close>

record host =
  runCommand :: "string \<Rightarrow> string \<Rightarrow> fs \<Rightarrow> exn option \<times> fs"
  postProcess :: "string \<Rightarrow> ConversionOptions \<Rightarrow> fs \<Rightarrow> exn option \<times> fs"

definition executeConversion ::
  "host \<Rightarrow> FileConversionInfo \<Rightarrow> string \<Rightarrow> ConversionOptions \<Rightarrow> fs \<Rightarrow> exn option \<times> fs" where
  "executeConversion h file outputPath options files =
     (case getConversionCommandId (fileType file) (targetFormat options) of
        None \<Rightarrow>
          (Some (Error (''Unsupported conversion: '' @ typeName (fileType file) @ '' to ''
                          @ formatName (targetFormat options))), files)
      | Some commandId \<Rightarrow>
          (case runCommand h commandId (filePath file) files of
             (Some e, files') \<Rightarrow> (Some e, files')
           | (None, files') \<Rightarrow> postProcess h outputPath options files'))"

text \<open>The counters of \<^verbatim>\<open>convertFiles\<close>, its error list, and the file system.\<close>

record batch_state =
  completed :: nat
  skipped :: nat
  failed :: nat
  errors :: "string list"
  files :: fs
  isPaused :: bool

datatype outcome = Skipped | Converted | Failed

text \<open>
  The \<^verbatim>\<open>try { ... } catch\<close> of one loop iteration. \<open>Skipped\<close> is the \<^verbatim>\<open>continue\<close>,
  which also leaves out the batch prompt at the end of the iteration.
\<close>

definition convertUnit ::
  "host \<Rightarrow> FileConversionInfo \<Rightarrow> ConversionOptions \<Rightarrow> batch_state \<Rightarrow> outcome \<times> batch_state" where
  "convertUnit h file options st =
     (if (fileType file = Csv \<and> targetFormat options = ToCsv) \<or>
         (fileType file = Json \<and> targetFormat options = ToJson) \<or>
         (fileType file = Excel \<and> targetFormat options = ToExcel)
      then (Skipped, st\<lparr>skipped := skipped st + 1\<rparr>)
      else
        (let fileExt = getFileExtension (targetFormat options);
             outputPath = replaceExtension (filePath file) fileExt
         in if existsSync (files st) outputPath \<and> \<not> overwriteFiles options
            then (Skipped, st\<lparr>skipped := skipped st + 1\<rparr>)
            else
              (case executeConversion h file outputPath options (files st) of
                 (None, files') \<Rightarrow>
                   (Converted, st\<lparr>completed := completed st + 1, files := files'\<rparr>)
               | (Some e, files') \<Rightarrow>
                   (Failed, st\<lparr>failed := failed st + 1,
                               errors := errors st @
                                 [''Error converting '' @ fileName file @ '': '' @ message e],
                               files := files'\<rparr>))))"

text \<open>The answers of the user and of the cancellation token, by loop index.\<close>

datatype answer = Continue | Pause | ViewErrors | Stop | Dismissed

record ui =
  isCancellationRequested :: "nat \<Rightarrow> bool"
  resumeResponse :: "nat \<Rightarrow> bool"
  continueResponse :: "nat \<Rightarrow> answer"
  continueAfterErrors :: "nat \<Rightarrow> bool"

datatype ending = Finished | Cancelled | Stopped

text \<open>
  \<^verbatim>\<open>for (let i = 0; i < files.length; i++)\<close>, as a recursion on the files that remain;
  \<^verbatim>\<open>i < files.length - 1\<close> is that more files follow.
\<close>

fun convertLoop ::
  "host \<Rightarrow> ui \<Rightarrow> nat \<Rightarrow> ConversionOptions \<Rightarrow> nat \<Rightarrow> FileConversionInfo list \<Rightarrow>
   batch_state \<Rightarrow> ending \<times> batch_state" where
  "convertLoop h u batchSize options i [] st = (Finished, st)"
| "convertLoop h u batchSize options i (file # rest) st =
     (if isCancellationRequested u i then (Cancelled, st)
      else if isPaused st \<and> \<not> resumeResponse u i then (Cancelled, st)
      else
        (case convertUnit h file options (st\<lparr>isPaused := False\<rparr>) of
           (Skipped, st') \<Rightarrow> convertLoop h u batchSize options (i + 1) rest st'
         | (_, st') \<Rightarrow>
             (if batchSize \<noteq> 0 \<and> (i + 1) mod batchSize = 0 \<and> rest \<noteq> []
              then (case continueResponse u i of
                      Stop \<Rightarrow> (Stopped, st')
                    | Pause \<Rightarrow>
                        convertLoop h u batchSize options (i + 1) rest (st'\<lparr>isPaused := True\<rparr>)
                    | ViewErrors \<Rightarrow>
                        (if errors st' \<noteq> [] \<and> \<not> continueAfterErrors u i then (Stopped, st')
                         else convertLoop h u batchSize options (i + 1) rest st')
                    | _ \<Rightarrow> convertLoop h u batchSize options (i + 1) rest st')
              else convertLoop h u batchSize options (i + 1) rest st')))"

definition convertFiles ::
  "host \<Rightarrow> ui \<Rightarrow> nat \<Rightarrow> fs \<Rightarrow> FileConversionInfo list \<Rightarrow> ConversionOptions \<Rightarrow> ending \<times> batch_state" where
  "convertFiles h u batchSize fs0 fileList options =
     convertLoop h u batchSize options 0 fileList
       \<lparr>completed = 0, skipped = 0, failed = 0, errors = [], files = fs0, isPaused = False\<rparr>"

section \<open>A fragment of the engine, for the examples\<close>

text \<open>The value of an own property, \<^verbatim>\<open>undefined\<close> when there is none.\<close>

definition ownValue :: "string \<Rightarrow> (string \<times> jsval) list \<Rightarrow> jsval" where
  "ownValue k kvs = (case map_of kvs k of Some v \<Rightarrow> v | None \<Rightarrow> JUndefined)"

text \<open>
  What \<^verbatim>\<open>new Function('data', body)\<close> yields in V8 for two bodies (the first is
  the condition of the repository's filter test), on data whose fields \<^verbatim>\<open>active\<close>,
  \<^verbatim>\<open>name\<close> and \<^verbatim>\<open>length\<close> are own properties or missing; the fragment rejects every
  other text.
\<close>

definition sampleCompile :: compiler where
  "sampleCompile body =
     (if body = ''return data.active === true;'' then
        Inr (\<lambda>d. case d of
                   JUndefined \<Rightarrow> Inl (Error ''Cannot read properties of undefined (reading 'active')'')
                 | JNull \<Rightarrow> Inl (Error ''Cannot read properties of null (reading 'active')'')
                 | _ \<Rightarrow> Inr (JBool (ownValue ''active'' (ownProps d) = JBool True)))
      else if body = ''return data.name.length;'' then
        Inr (\<lambda>d. case ownValue ''name'' (ownProps d) of
                   JUndefined \<Rightarrow> Inl (Error ''Cannot read properties of undefined (reading 'length')'')
                 | JNull \<Rightarrow> Inl (Error ''Cannot read properties of null (reading 'length')'')
                 | JStr s \<Rightarrow> Inr (JNum (int (length s)))
                 | JArr xs \<Rightarrow> Inr (JNum (int (length xs)))
                 | JObj kvs \<Rightarrow> Inr (ownValue ''length'' kvs)
                 | _ \<Rightarrow> Inr JUndefined)
      else Inl (Error ''Unexpected token''))"

section \<open>Auxiliary facts\<close>

lemma rethrow_Inr: "rethrow pre (Inr v) = Inr v"
  by (simp add: rethrow_def)

lemma rethrow_Error: "rethrow pre (Inl (Error m)) = Inl (Error (pre @ m))"
  by (simp add: rethrow_def)

lemma rethrow_OutsideModel: "rethrow pre (Inl OutsideModel) = Inl OutsideModel"
  by (simp add: rethrow_def)

lemmas object_defs =
  assignTo_def putOwn_def withProto_def fromObjectPrototype_def objectPrototypeNames_def
  arrayIndex_def digitValue_def


lemma filterItems_total:
  "\<forall>item\<in>set items. \<exists>v. filterFn item = Inr v \<Longrightarrow>
   filterItems filterFn items =
     Inr (filter (\<lambda>item. case filterFn item of Inr v \<Rightarrow> truthy v | Inl e \<Rightarrow> False) items)"
  by (induction items) auto




lemma foldl_Inl:
  "foldl (\<lambda>acc r. case acc of Inl e \<Rightarrow> Inl e | Inr d \<Rightarrow> f r d) (Inl e) rs = Inl e"
  by (induction rs) auto

lemma applyRules_foldl:
  "applyRules compile rules data =
     foldl (\<lambda>acc r. case acc of Inl e \<Rightarrow> Inl e | Inr d \<Rightarrow> dispatch compile r d) (Inr data)
       (filter (\<lambda>r. enabled r \<noteq> Some False) rules)"
  by (induction rules arbitrary: data) (auto simp: foldl_Inl split: sum.splits)

section \<open>The filter rule\<close>

text \<open>
  Claim C8. On an array, when the condition compiles and its evaluation returns a value
  on every record, the filter rule keeps exactly the records on which that value is
  truthy, in their order. On anything that is not an array it returns its input,
  whatever the compiler does with the condition.
\<close>

theorem filter_keeps_truthy_records:
  "(compile (''return '' @ cond @ '';'') = Inr filterFn \<and>
    (\<forall>item\<in>set items. \<exists>v. filterFn item = Inr v) \<longrightarrow>
      applyFilterRule compile (JArr items) cond =
        Inr (JArr (filter (\<lambda>item. case filterFn item of Inr v \<Rightarrow> truthy v | Inl e \<Rightarrow> False) items)))
   \<and> (\<not> isArray data \<longrightarrow> applyFilterRule compile data cond = Inr data)"
proof (intro conjI impI)
  assume "compile (''return '' @ cond @ '';'') = Inr filterFn \<and>
    (\<forall>item\<in>set items. \<exists>v. filterFn item = Inr v)"
  then show "applyFilterRule compile (JArr items) cond =
        Inr (JArr (filter (\<lambda>item. case filterFn item of Inr v \<Rightarrow> truthy v | Inl e \<Rightarrow> False) items))"
    by (simp add: applyFilterRule_def filterItems_total rethrow_Inr)
next
  assume "\<not> isArray data"
  then show "applyFilterRule compile data cond = Inr data"
    by (cases data) (simp_all add: applyFilterRule_def rethrow_Inr)
qed

theorem filter_keeps_truthy_records_witness:
  "sampleCompile (''return '' @ ''data.active === true'' @ '';'') \<noteq> Inl (Error ''Unexpected token'') \<and>
   applyFilterRule sampleCompile
     (JArr [JObj [(''id'', JNum 1), (''active'', JBool True)],
            JObj [(''id'', JNum 2), (''active'', JBool False)]])
     ''data.active === true''
   = Inr (JArr [JObj [(''id'', JNum 1), (''active'', JBool True)]])
   \<and> \<not> isArray (JObj [(''id'', JNum 1)])
   \<and> applyFilterRule (\<lambda>body. Inl (Error ''Unexpected token'')) (JObj [(''id'', JNum 1)]) ''(('' =
       Inr (JObj [(''id'', JNum 1)])"
proof -
  obtain f where f: "sampleCompile (''return '' @ ''data.active === true'' @ '';'') = Inr f"
    and fdef: "f = (\<lambda>d. case d of
                   JUndefined \<Rightarrow> Inl (Error ''Cannot read properties of undefined (reading 'active')'')
                 | JNull \<Rightarrow> Inl (Error ''Cannot read properties of null (reading 'active')'')
                 | _ \<Rightarrow> Inr (JBool (ownValue ''active'' (ownProps d) = JBool True)))"
    by (simp add: sampleCompile_def)
  let ?items = "[JObj [(''id'', JNum 1), (''active'', JBool True)],
            JObj [(''id'', JNum 2), (''active'', JBool False)]]"
  have ok: "\<forall>item\<in>set ?items. \<exists>v. f item = Inr v"
    by (simp add: fdef)
  from filter_keeps_truthy_records [of sampleCompile "''data.active === true''" f ?items]
  have "applyFilterRule sampleCompile (JArr ?items) ''data.active === true'' =
        Inr (JArr (filter (\<lambda>item. case f item of Inr v \<Rightarrow> truthy v | Inl e \<Rightarrow> False) ?items))"
    using f ok by blast
  moreover have "filter (\<lambda>item. case f item of Inr v \<Rightarrow> truthy v | Inl e \<Rightarrow> False) ?items
      = [JObj [(''id'', JNum 1), (''active'', JBool True)]]"
    by (simp add: fdef ownValue_def)
  moreover have "applyFilterRule (\<lambda>body. Inl (Error ''Unexpected token'')) (JObj [(''id'', JNum 1)]) ''(('' =
       Inr (JObj [(''id'', JNum 1)])"
    using filter_keeps_truthy_records [of "\<lambda>body. Inl (Error ''Unexpected token'')" "''((''" _ _ "JObj [(''id'', JNum 1)]"]
    by simp
  ultimately show ?thesis using f by simp
qed

section \<open>The fold over the rules\<close>

text \<open>
  Claim C1. With a rule file that holds an array of rules, the result is the left fold
  of the rule dispatch over the rules whose \<open>enabled\<close> flag is not \<open>false\<close>, in file
  order, each step on the result of the step before; a disabled rule is dropped before
  anything of it is looked at, so its expression is never handed to the compiler.
\<close>

theorem rules_fold_in_file_order:
  assumes "loadYaml yamlFilePath = Inr (Doc (RuleArray rules))"
  shows "applyYamlTransformations loadYaml compile data yamlFilePath =
           rethrow ''Failed to apply YAML transformations: ''
             (foldl (\<lambda>acc r. case acc of Inl e \<Rightarrow> Inl e | Inr d \<Rightarrow> dispatch compile r d)
                (Inr data) (filter (\<lambda>r. enabled r \<noteq> Some False) rules))"
  using assms by (simp add: applyYamlTransformations_def applyRules_foldl)

text \<open>
  The rule file of the test ``Skip disabled transformations'', with an expression in
  the disabled rule that does not compile.
\<close>

theorem rules_fold_in_file_order_witness:
  "applyYamlTransformations
     (\<lambda>path. Inr (Doc (RuleArray
        [\<lparr>name = ''This should be skipped'', enabled = Some False, condition = None,
          mapping = None, calculate = Some \<lparr>field = ''shouldNotExist'', expression = ''((''\<rparr>\<rparr>,
         \<lparr>name = ''This should run'', enabled = Some True, condition = None,
          mapping = None,
          calculate = Some \<lparr>field = ''shouldExist'', expression = ''data.name.length''\<rparr>\<rparr>])))
     sampleCompile (JObj [(''id'', JNum 1), (''name'', JStr ''Test'')]) ''rules.yaml''
   = Inr (JObj [(''id'', JNum 1), (''name'', JStr ''Test''),
                (''shouldExist'', JNum 4)])"
proof -
  let ?rules = "[\<lparr>name = ''This should be skipped'', enabled = Some False, condition = None,
          mapping = None, calculate = Some \<lparr>field = ''shouldNotExist'', expression = ''((''\<rparr>\<rparr>,
         \<lparr>name = ''This should run'', enabled = Some True, condition = None,
          mapping = None,
          calculate = Some \<lparr>field = ''shouldExist'', expression = ''data.name.length''\<rparr>\<rparr>]"
  let ?load = "\<lambda>path::string. (Inr (Doc (RuleArray ?rules)) :: exn + document)"
  have "?load ''rules.yaml'' = Inr (Doc (RuleArray ?rules))"
    by simp
  with rules_fold_in_file_order [of ?load "''rules.yaml''" ?rules sampleCompile
      "JObj [(''id'', JNum 1), (''name'', JStr ''Test'')]"]
  show ?thesis
    by (simp add: dispatch_def applyCalculationRule_def sampleCompile_def rethrow_def ownValue_def object_defs)
qed

section \<open>Invalid rule files\<close>

text \<open>
  Claim C6. When the parsed document has no array under \<open>transformations\<close>, the call
  fails, with the same error for every data and every compiler (no rule is dispatched,
  no record is touched), and the cause names \<open>transformations\<close>: it is the text
  ``Invalid YAML transformation file: missing or invalid transformations array'' for
  every document on which the property can be read, and the TypeError of the property
  read for an empty or null document.
\<close>

theorem invalid_rule_file_fails_first:
  assumes "loadYaml yamlFilePath = Inr config"
    and "\<forall>rules. config \<noteq> Doc (RuleArray rules)"
  shows "\<exists>cause.
           sublist ''transformations'' cause \<and>
           ((\<exists>v. config = Doc (NotArray v)) \<longrightarrow>
              cause = ''Invalid YAML transformation file: missing or invalid transformations array'') \<and>
           (\<forall>compile data.
              applyYamlTransformations loadYaml compile data yamlFilePath =
                Inl (Error (''Failed to apply YAML transformations: '' @ cause)))"
proof (cases config)
  case DocUndefined
  have "sublist ''transformations'' (''Cannot read properties of undefined (reading ''
          @ [CHR 0x27] @ ''transformations'' @ [CHR 0x27] @ '')'')"
    unfolding sublist_def by (metis append.assoc)
  with DocUndefined assms(1) show ?thesis
    by (intro exI [of _ "''Cannot read properties of undefined (reading 'transformations')''"])
       (simp add: applyYamlTransformations_def rethrow_def)
next
  case DocNull
  have "sublist ''transformations'' (''Cannot read properties of null (reading ''
          @ [CHR 0x27] @ ''transformations'' @ [CHR 0x27] @ '')'')"
    unfolding sublist_def by (metis append.assoc)
  with DocNull assms(1) show ?thesis
    by (intro exI [of _ "''Cannot read properties of null (reading 'transformations')''"])
       (simp add: applyYamlTransformations_def rethrow_def)
next
  case (Doc t)
  with assms(2) obtain v where t: "t = NotArray v"
    by (cases t) auto
  have "sublist ''transformations'' (''Invalid YAML transformation file: missing or invalid ''
          @ ''transformations'' @ '' array'')"
    unfolding sublist_def by blast
  with Doc t assms(1) show ?thesis
    by (intro exI [of _ "''Invalid YAML transformation file: missing or invalid transformations array''"])
       (simp add: applyYamlTransformations_def rethrow_def)
qed

theorem invalid_rule_file_fails_first_witness:
  "applyYamlTransformations (\<lambda>path. Inr (Doc (NotArray JUndefined))) sampleCompile
     (JArr [JObj [(''id'', JNum 1)]]) ''rules.yaml'' =
   Inl (Error ''Failed to apply YAML transformations: Invalid YAML transformation file: missing or invalid transformations array'')"
proof -
  let ?load = "\<lambda>path::string. (Inr (Doc (NotArray JUndefined)) :: exn + document)"
  have h1: "?load ''rules.yaml'' = Inr (Doc (NotArray JUndefined))" by simp
  have h2: "\<forall>rules. Doc (NotArray JUndefined) \<noteq> Doc (RuleArray rules)" by simp
  from invalid_rule_file_fails_first [of ?load "''rules.yaml''" "Doc (NotArray JUndefined)", OF h1 h2]
  show ?thesis by auto
qed

text \<open>An empty rule file: the property read itself throws, and that error is wrapped.\<close>

lemma empty_rule_file_message:
  "applyYamlTransformations (\<lambda>path. Inr DocUndefined) compile data yamlFilePath =
     Inl (Error (''Failed to apply YAML transformations: '' @
                 ''Cannot read properties of undefined (reading 'transformations')''))"
  by (simp add: applyYamlTransformations_def rethrow_def)

section \<open>Dispatch by the key that is present\<close>

text \<open>
  Claim C10. An enabled rule that carries \<open>condition\<close> is applied as a filter
  whatever its \<open>mapping\<close> and \<open>calculate\<close> keys hold; without \<open>condition\<close>, a rule that
  carries \<open>mapping\<close> is applied as a mapping whatever its \<open>calculate\<close> key holds; with
  neither, \<open>calculate\<close> is applied; a rule with none of the three keys returns the data
  unchanged.
\<close>

theorem dispatch_precedence:
  assumes "enabled r \<noteq> Some False"
  shows "(condition r = Some c \<longrightarrow>
            applyRules compile [r\<lparr>mapping := m, calculate := k\<rparr>] data =
              applyFilterRule compile data c)
       \<and> (condition r = None \<and> mapping r = Some mp \<longrightarrow>
            applyRules compile [r\<lparr>calculate := k\<rparr>] data = applyMappingRule data mp)
       \<and> (condition r = None \<and> mapping r = None \<and> calculate r = Some cs \<longrightarrow>
            applyRules compile [r] data =
              applyCalculationRule compile data (field cs) (expression cs))
       \<and> (condition r = None \<and> mapping r = None \<and> calculate r = None \<longrightarrow>
            applyRules compile [r] data = Inr data)"
  using assms by (auto simp: dispatch_def split: sum.splits)

theorem dispatch_precedence_witness:
  "applyRules sampleCompile
     [\<lparr>name = ''both'', enabled = None, condition = Some ''data.active === true'',
       mapping = Some [(''fullName'', ''name'')],
       calculate = Some \<lparr>field = ''n'', expression = ''((''\<rparr>\<rparr>]
     (JArr [JObj [(''name'', JStr ''A''), (''active'', JBool True)],
            JObj [(''name'', JStr ''B''), (''active'', JBool False)]])
   = Inr (JArr [JObj [(''name'', JStr ''A''), (''active'', JBool True)]])
 \<and> applyRules sampleCompile
     [\<lparr>name = ''map and calculate'', enabled = Some True, condition = None,
       mapping = Some [(''fullName'', ''name'')],
       calculate = Some \<lparr>field = ''n'', expression = ''((''\<rparr>\<rparr>]
     (JArr [JObj [(''name'', JStr ''A'')]])
   = Inr (JArr [JObj [(''name'', JStr ''A''), (''fullName'', JStr ''A'')]])
 \<and> applyRules sampleCompile
     [\<lparr>name = ''calculate'', enabled = None, condition = None, mapping = None,
       calculate = Some \<lparr>field = ''n'', expression = ''data.name.length''\<rparr>\<rparr>]
     (JObj [(''name'', JStr ''Bob'')])
   = Inr (JObj [(''name'', JStr ''Bob''), (''n'', JNum 3)])
 \<and> applyRules sampleCompile
     [\<lparr>name = ''inert'', enabled = None, condition = None, mapping = None, calculate = None\<rparr>]
     (JObj [(''name'', JStr ''Bob'')])
   = Inr (JObj [(''name'', JStr ''Bob'')])"
proof -
  let ?r1 = "\<lparr>name = ''both'', enabled = None, condition = Some ''data.active === true'',
       mapping = None, calculate = None\<rparr>"
  let ?r2 = "\<lparr>name = ''map and calculate'', enabled = Some True, condition = None,
       mapping = Some [(''fullName'', ''name'')], calculate = None\<rparr>"
  let ?r3 = "\<lparr>name = ''calculate'', enabled = None, condition = None, mapping = None,
       calculate = Some \<lparr>field = ''n'', expression = ''data.name.length''\<rparr>\<rparr>"
  let ?r4 = "\<lparr>name = ''inert'', enabled = None, condition = None, mapping = None,
       calculate = None\<rparr>"
  let ?k = "Some \<lparr>field = ''n'', expression = ''((''\<rparr>"
  have e1: "enabled ?r1 \<noteq> Some False" and e2: "enabled ?r2 \<noteq> Some False"
    and e3: "enabled ?r3 \<noteq> Some False" and e4: "enabled ?r4 \<noteq> Some False"
    by simp_all
  have c1: "applyRules sampleCompile [?r1\<lparr>mapping := Some [(''fullName'', ''name'')], calculate := ?k\<rparr>]
      (JArr [JObj [(''name'', JStr ''A''), (''active'', JBool True)],
            JObj [(''name'', JStr ''B''), (''active'', JBool False)]])
     = applyFilterRule sampleCompile (JArr [JObj [(''name'', JStr ''A''), (''active'', JBool True)],
            JObj [(''name'', JStr ''B''), (''active'', JBool False)]]) ''data.active === true''"
    using dispatch_precedence [OF e1, where c = "''data.active === true''"
        and compile = sampleCompile and m = "Some [(''fullName'', ''name'')]" and k = ?k]
    by simp
  have c2: "applyRules sampleCompile [?r2\<lparr>calculate := ?k\<rparr>] (JArr [JObj [(''name'', JStr ''A'')]])
     = applyMappingRule (JArr [JObj [(''name'', JStr ''A'')]]) [(''fullName'', ''name'')]"
    using dispatch_precedence [OF e2, where compile = sampleCompile and k = ?k
        and mp = "[(''fullName'', ''name'')]"]
    by simp
  have c3: "applyRules sampleCompile [?r3] (JObj [(''name'', JStr ''Bob'')])
     = applyCalculationRule sampleCompile (JObj [(''name'', JStr ''Bob'')]) ''n'' ''data.name.length''"
    using dispatch_precedence [OF e3, where compile = sampleCompile
        and cs = "\<lparr>field = ''n'', expression = ''data.name.length''\<rparr>"]
    by simp
  have c4: "applyRules sampleCompile [?r4] (JObj [(''name'', JStr ''Bob'')]) = Inr (JObj [(''name'', JStr ''Bob'')])"
    using dispatch_precedence [OF e4, where compile = sampleCompile]
    by simp
  have v1: "applyFilterRule sampleCompile (JArr [JObj [(''name'', JStr ''A''), (''active'', JBool True)],
            JObj [(''name'', JStr ''B''), (''active'', JBool False)]]) ''data.active === true''
      = Inr (JArr [JObj [(''name'', JStr ''A''), (''active'', JBool True)]])"
    by (simp add: applyFilterRule_def sampleCompile_def rethrow_def ownValue_def)
  have v2: "applyMappingRule (JArr [JObj [(''name'', JStr ''A'')]]) [(''fullName'', ''name'')]
      = Inr (JArr [JObj [(''name'', JStr ''A''), (''fullName'', JStr ''A'')]])"
    by (simp add: applyMappingRule_def rethrow_def object_defs)
  have v3: "applyCalculationRule sampleCompile (JObj [(''name'', JStr ''Bob'')]) ''n'' ''data.name.length''
      = Inr (JObj [(''name'', JStr ''Bob''), (''n'', JNum 3)])"
    by (simp add: applyCalculationRule_def sampleCompile_def rethrow_def ownValue_def object_defs)
  from c1 c2 c3 c4 v1 v2 v3 show ?thesis by simp
qed

section \<open>Errors thrown by an expression\<close>



section \<open>The mapping rule\<close>

lemma map_of_updateOwn:
  "map_of kvs k \<noteq> None \<Longrightarrow> map_of (updateOwn k v kvs) = (map_of kvs)(k \<mapsto> v)"
  by (induction kvs) (auto simp: fun_eq_iff)

lemma map_of_insertNew:
  "map_of kvs k = None \<Longrightarrow> map_of (insertNew k v kvs) = (map_of kvs)(k \<mapsto> v)"
proof (induction kvs)
  case Nil
  then show ?case by simp
next
  case (Cons kv kvs)
  obtain k' v' where kv: "kv = (k', v')" by (cases kv)
  from Cons.prems kv have ne: "k \<noteq> k'" and rest: "map_of kvs k = None"
    by (auto split: if_splits)
  from Cons.IH [OF rest] ne kv show ?case
    by (auto simp: fun_eq_iff split: option.splits)
qed

lemma map_of_putOwn: "map_of (putOwn k v kvs) = (map_of kvs)(k \<mapsto> v)"
  by (simp add: putOwn_def map_of_updateOwn map_of_insertNew)

lemma lookupProp_plain:
  "lookupProp k (JObj kvs) =
     (case map_of kvs k of Some v \<Rightarrow> Present v
      | None \<Rightarrow> fromObjectPrototype k (JBuiltin ''Object.prototype''))"
  by simp

lemma fromObjectPrototype_ordinary:
  "k \<notin> set objectPrototypeNames \<Longrightarrow> fromObjectPrototype k p = Absent"
  by (auto simp: fromObjectPrototype_def objectPrototypeNames_def)

lemma fromObjectPrototype_not_Beyond: "fromObjectPrototype k p \<noteq> Beyond"
  by (simp add: fromObjectPrototype_def)

lemma assignTo_plain:
  "k \<noteq> ''__proto__'' \<Longrightarrow>
   assignTo k v (JBuiltin ''Object.prototype'') kvs = Some (JObj (putOwn k v kvs))"
  by (simp add: assignTo_def withProto_def)

lemma applyEntries_plain:
  "''__proto__'' \<notin> fst ` set mp \<Longrightarrow>
   \<exists>kvs'. applyEntries mp (JObj kvs) = Some (JObj kvs') \<and>
          (\<forall>k. map_of kvs k \<noteq> None \<longrightarrow> map_of kvs' k \<noteq> None)"
proof (induction mp arbitrary: kvs)
  case Nil
  then show ?case by simp
next
  case (Cons e es)
  obtain n old where e: "e = (n, old)" by (cases e)
  from Cons.prems e have n: "n \<noteq> ''__proto__''" and es: "''__proto__'' \<notin> fst ` set es"
    by auto
  show ?case
  proof (cases "lookupProp old (JObj kvs)")
    case Absent
    with Cons.IH [OF es, of kvs] e show ?thesis by simp
  next
    case (Present v)
    from Cons.IH [OF es, of "putOwn n v kvs"] obtain kvs' where
      "applyEntries es (JObj (putOwn n v kvs)) = Some (JObj kvs')"
      and keep: "\<forall>k. map_of (putOwn n v kvs) k \<noteq> None \<longrightarrow> map_of kvs' k \<noteq> None"
      by blast
    with Present e n show ?thesis
      by (auto simp: assignTo_plain map_of_putOwn)
  next
    case Beyond
    then show ?thesis
      by (simp add: fromObjectPrototype_not_Beyond split: option.splits)
  qed
qed

lemma applyEntries_values:
  assumes "distinct (map fst mp)"
    and "''__proto__'' \<notin> fst ` set mp"
    and "set (map snd mp) \<inter> set objectPrototypeNames = {}"
    and "\<forall>es1 n old es2. mp = es1 @ (n, old) # es2 \<and> n \<noteq> old \<longrightarrow> n \<notin> set (map snd es2)"
    and "applyEntries mp (JObj kvs) = Some (JObj kvs')"
  shows "map_of kvs' k =
     (case map_of mp k of
        Some old \<Rightarrow> (case map_of kvs old of Some v \<Rightarrow> Some v | None \<Rightarrow> map_of kvs k)
      | None \<Rightarrow> map_of kvs k)"
  using assms
proof (induction mp arbitrary: kvs)
  case Nil
  then show ?case by simp
next
  case (Cons e es)
  obtain n old where e: "e = (n, old)" by (cases e)
  from Cons.prems(1,2,3) e have dis: "distinct (map fst es)"
    and np: "n \<noteq> ''__proto__''" and esp: "''__proto__'' \<notin> fst ` set es"
    and src: "set (map snd es) \<inter> set objectPrototypeNames = {}"
    and oldp: "old \<notin> set objectPrototypeNames"
    and n_tgt: "n \<notin> set (map fst es)"
    by auto
  have ord: "\<forall>es1 n old es2. es = es1 @ (n, old) # es2 \<and> n \<noteq> old \<longrightarrow> n \<notin> set (map snd es2)"
  proof (intro allI impI)
    fix es1 n' old' es2 assume "es = es1 @ (n', old') # es2 \<and> n' \<noteq> old'"
    then have "e # es = (e # es1) @ (n', old') # es2" and "n' \<noteq> old'" by simp_all
    with Cons.prems(4) show "n' \<notin> set (map snd es2)" by blast
  qed
  have head: "n \<noteq> old \<longrightarrow> n \<notin> set (map snd es)"
    using Cons.prems(4) e by (metis append_Nil)
  let ?kvs1 = "case map_of kvs old of Some v \<Rightarrow> putOwn n v kvs | None \<Rightarrow> kvs"
  have step: "applyEntries (e # es) (JObj kvs) = applyEntries es (JObj ?kvs1)"
    using e oldp np
    by (auto simp: fromObjectPrototype_ordinary assignTo_plain split: option.splits)
  with Cons.prems(5) have run: "applyEntries es (JObj ?kvs1) = Some (JObj kvs')" by simp
  have ih: "map_of kvs' k =
     (case map_of es k of
        Some old' \<Rightarrow> (case map_of ?kvs1 old' of Some v \<Rightarrow> Some v | None \<Rightarrow> map_of ?kvs1 k)
      | None \<Rightarrow> map_of ?kvs1 k)"
    by (rule Cons.IH [OF dis esp src ord run])
  have r1: "\<And>x. x \<noteq> n \<Longrightarrow> map_of ?kvs1 x = map_of kvs x"
    by (simp add: map_of_putOwn split: option.splits)
  have r1n: "map_of ?kvs1 n = (case map_of kvs old of Some v \<Rightarrow> Some v | None \<Rightarrow> map_of kvs n)"
    by (simp add: map_of_putOwn split: option.splits)
  have self: "n = old \<Longrightarrow> map_of ?kvs1 = map_of kvs"
    by (auto simp: map_of_putOwn fun_eq_iff split: option.splits)
  have srcs: "\<And>old'. map_of es k = Some old' \<Longrightarrow> map_of ?kvs1 old' = map_of kvs old'"
  proof -
    fix old' assume "map_of es k = Some old'"
    then have "old' \<in> set (map snd es)"
      by (metis map_of_SomeD image_eqI set_map snd_conv)
    with head have "old' \<noteq> n \<or> n = old" by auto
    with r1 self show "map_of ?kvs1 old' = map_of kvs old'" by auto
  qed
  show ?case
  proof (cases "k = n")
    case True
    with n_tgt have "map_of es k = None"
      by (simp add: map_of_eq_None_iff)
    with True show ?thesis
      using ih r1n e by (auto split: option.splits)
  next
    case False
    show ?thesis
    proof (cases "map_of es k")
      case None
      with False show ?thesis using ih r1 e by (auto split: option.splits)
    next
      case (Some old')
      with srcs have "map_of ?kvs1 old' = map_of kvs old'" by simp
      with Some False show ?thesis using ih r1 e by (auto split: option.splits)
    qed
  qed
qed

lemma mapItems_plain:
  "''__proto__'' \<notin> fst ` set mp \<Longrightarrow>
   \<exists>out. mapItems mp items = Some (map JObj out) \<and> length out = length items \<and>
         (\<forall>i<length items. applyEntries mp (JObj (ownProps (items ! i))) = Some (JObj (out ! i)))"
proof (induction items)
  case Nil
  then show ?case by simp
next
  case (Cons item items)
  from applyEntries_plain [OF Cons.prems, of "ownProps item"] obtain kvs' where
    h: "applyEntries mp (JObj (ownProps item)) = Some (JObj kvs')" by blast
  from Cons.IH [OF Cons.prems] obtain out where
    t: "mapItems mp items = Some (map JObj out)" "length out = length items"
       "\<forall>i<length items. applyEntries mp (JObj (ownProps (items ! i))) = Some (JObj (out ! i))"
    by blast
  have "\<forall>i<length (item # items).
          applyEntries mp (JObj (ownProps ((item # items) ! i))) = Some (JObj ((kvs' # out) ! i))"
    using h t(3) by (auto simp: nth_Cons split: nat.splits)
  with h t(1,2) show ?case
    by (intro exI [of _ "kvs' # out"]) simp
qed

text \<open>
  Claim C7, as stated, fails when an entry reads a field that an earlier entry of the
  same mapping has written: the entries are applied one after the other to the same
  copy. The record \<open>{b: 1}\<close> has no field \<open>a\<close>, not even an inherited one, yet the entry
  \<open>c: a\<close> adds \<open>c\<close>, since the entry \<open>a: b\<close> before it has added \<open>a\<close>; and
  \<open>fullName: name\<close> copies the value that the entry \<open>name: x\<close> has just written, not the
  value of \<open>name\<close> in the record.
\<close>

theorem mapping_counterexample:
  "applyMappingRule (JArr [JObj [(''b'', JNum 1)]]) [(''a'', ''b''), (''c'', ''a'')]
     = Inr (JArr [JObj [(''b'', JNum 1), (''a'', JNum 1), (''c'', JNum 1)]])
   \<and> lookupProp ''a'' (JObj [(''b'', JNum 1)]) = Absent
   \<and> lookupProp ''c'' (JObj [(''b'', JNum 1), (''a'', JNum 1), (''c'', JNum 1)]) = Present (JNum 1)
   \<and> applyMappingRule (JArr [JObj [(''name'', JStr ''Alice''), (''x'', JStr ''Bob'')]])
        [(''name'', ''x''), (''fullName'', ''name'')]
     = Inr (JArr [JObj [(''name'', JStr ''Bob''), (''x'', JStr ''Bob''), (''fullName'', JStr ''Bob'')]])"
  by (simp add: applyMappingRule_def rethrow_def object_defs)

text \<open>
  What the rule does with the names of \<^verbatim>\<open>Object.prototype\<close>, which the amended claim
  below leaves out: an existing-field name such as \<^verbatim>\<open>__proto__\<close> or \<^verbatim>\<open>toString\<close> is
  found in every record, since \<^verbatim>\<open>in\<close> also holds for inherited members; the
  new-field name \<^verbatim>\<open>__proto__\<close> adds no field, it goes to the inherited setter, which
  ignores a primitive and replaces the prototype of the copy by an object or \<^verbatim>\<open>null\<close>.
  The last line shows the place that an array-index name takes among the fields.
\<close>

lemma mapping_inherited_members:
  "applyMappingRule (JArr [JObj [(''a'', JNum 1)]]) [(''x'', ''__proto__'')]
     = Inr (JArr [JObj [(''a'', JNum 1), (''x'', JBuiltin ''Object.prototype'')]])
   \<and> applyMappingRule (JArr [JObj [(''a'', JNum 1)]]) [(''x'', ''toString'')]
     = Inr (JArr [JObj [(''a'', JNum 1), (''x'', JBuiltin ''Object.prototype.toString'')]])
   \<and> applyMappingRule (JArr [JObj [(''a'', JNum 1)]]) [(''__proto__'', ''a'')]
     = Inr (JArr [JObj [(''a'', JNum 1)]])
   \<and> applyMappingRule (JArr [JObj [(''a'', JNull)]]) [(''__proto__'', ''a''), (''x'', ''toString'')]
     = Inr (JArr [JWithProto JNull [(''a'', JNull)]])
   \<and> applyMappingRule (JArr [JObj [(''a'', JObj [(''b'', JNum 1)])]])
        [(''__proto__'', ''a''), (''x'', ''b'')]
     = Inr (JArr [JWithProto (JObj [(''b'', JNum 1)])
                    [(''a'', JObj [(''b'', JNum 1)]), (''x'', JNum 1)]])
   \<and> applyMappingRule (JArr [JObj [(''a'', JArr [])]]) [(''__proto__'', ''a''), (''x'', ''b'')]
     = Inl OutsideModel
   \<and> applyMappingRule (JArr [JObj [(''b'', JNum 1)]]) [(''1'', ''b''), (''0'', ''b'')]
     = Inr (JArr [JObj [(''0'', JNum 1), (''1'', JNum 1), (''b'', JNum 1)]])"
  by (simp add: applyMappingRule_def rethrow_def object_defs)

text \<open>
  Claim C7, amended. When no new-field name is \<^verbatim>\<open>__proto__\<close>, the mapping rule
  never raises on an array and returns one object per item, which has every field of
  the item. When moreover the new-field names are distinct, no existing-field name is
  the name of a member of \<^verbatim>\<open>Object.prototype\<close>, and no entry, other than one that maps
  a field to itself, writes a field that a later entry reads, then each new field
  holds the value of its existing field where the item has that field, and every
  other field is as in the item (so the target is not added where the source is
  absent).
\<close>

theorem mapping_adds_fields:
  assumes "''__proto__'' \<notin> fst ` set mp"
  shows "\<exists>out. applyMappingRule (JArr items) mp = Inr (JArr (map JObj out)) \<and>
          length out = length items \<and>
          (\<forall>i<length items. \<forall>k.
             (map_of (ownProps (items ! i)) k \<noteq> None \<longrightarrow> map_of (out ! i) k \<noteq> None) \<and>
             (distinct (map fst mp) \<and> set (map snd mp) \<inter> set objectPrototypeNames = {} \<and>
              (\<forall>es1 n old es2. mp = es1 @ (n, old) # es2 \<and> n \<noteq> old \<longrightarrow>
                 n \<notin> set (map snd es2)) \<longrightarrow>
                map_of (out ! i) k =
                  (case map_of mp k of
                     Some old \<Rightarrow>
                       (case map_of (ownProps (items ! i)) old of
                          Some v \<Rightarrow> Some v
                        | None \<Rightarrow> map_of (ownProps (items ! i)) k)
                   | None \<Rightarrow> map_of (ownProps (items ! i)) k)))"
proof -
  from mapItems_plain [OF assms, of items] obtain out where
    run: "mapItems mp items = Some (map JObj out)" and len: "length out = length items"
    and each: "\<forall>i<length items. applyEntries mp (JObj (ownProps (items ! i))) = Some (JObj (out ! i))"
    by blast
  have res: "applyMappingRule (JArr items) mp = Inr (JArr (map JObj out))"
    using run by (simp add: applyMappingRule_def rethrow_def)
  have keep: "map_of (ownProps (items ! i)) k \<noteq> None \<longrightarrow> map_of (out ! i) k \<noteq> None"
    if "i < length items" for i k
  proof -
    from applyEntries_plain [OF assms, of "ownProps (items ! i)"] each that
    show ?thesis by auto
  qed
  have vals: "map_of (out ! i) k =
                  (case map_of mp k of
                     Some old \<Rightarrow>
                       (case map_of (ownProps (items ! i)) old of
                          Some v \<Rightarrow> Some v
                        | None \<Rightarrow> map_of (ownProps (items ! i)) k)
                   | None \<Rightarrow> map_of (ownProps (items ! i)) k)"
    if "i < length items" "distinct (map fst mp)"
       "set (map snd mp) \<inter> set objectPrototypeNames = {}"
       "\<forall>es1 n old es2. mp = es1 @ (n, old) # es2 \<and> n \<noteq> old \<longrightarrow> n \<notin> set (map snd es2)"
    for i k
    using applyEntries_values [OF that(2) assms that(3) that(4)] each that(1) by blast
  from res len keep vals show ?thesis by blast
qed

text \<open>
  The example of the specification, and a mapping in which a field is written after it
  has been read.
\<close>

theorem mapping_adds_fields_witness:
  "''__proto__'' \<notin> fst ` set [(''fullName'', ''name'')] \<and>
   distinct (map fst [(''fullName'', ''name'')]) \<and>
   set (map snd [(''fullName'', ''name'')]) \<inter> set objectPrototypeNames = {} \<and>
   applyMappingRule (JArr [JObj [(''name'', JStr ''Alice'')]]) [(''fullName'', ''name'')]
     = Inr (JArr [JObj [(''name'', JStr ''Alice''), (''fullName'', JStr ''Alice'')]]) \<and>
   (\<exists>out. applyMappingRule (JArr [JObj [(''name'', JStr ''Alice'')]]) [(''fullName'', ''name'')]
            = Inr (JArr (map JObj out)) \<and>
          map_of (out ! 0) ''fullName'' = Some (JStr ''Alice'') \<and>
          map_of (out ! 0) ''name'' = Some (JStr ''Alice'')) \<and>
   applyMappingRule (JArr [JObj [(''a'', JNum 1), (''b'', JNum 2)]]) [(''c'', ''a''), (''a'', ''b'')]
     = Inr (JArr [JObj [(''a'', JNum 2), (''b'', JNum 2), (''c'', JNum 1)]]) \<and>
   (\<exists>out. applyMappingRule (JArr [JObj [(''a'', JNum 1), (''b'', JNum 2)]])
             [(''c'', ''a''), (''a'', ''b'')]
            = Inr (JArr (map JObj out)) \<and>
          map_of (out ! 0) ''c'' = Some (JNum 1) \<and>
          map_of (out ! 0) ''a'' = Some (JNum 2) \<and>
          map_of (out ! 0) ''b'' = Some (JNum 2))"
proof -
  let ?items = "[JObj [(''name'', JStr ''Alice'')]]"
  let ?mp = "[(''fullName'', ''name'')]"
  let ?items2 = "[JObj [(''a'', JNum 1), (''b'', JNum 2)]]"
  let ?mp2 = "[(''c'', ''a''), (''a'', ''b'')]"
  have p: "''__proto__'' \<notin> fst ` set ?mp" by simp
  have d: "distinct (map fst ?mp) \<and> set (map snd ?mp) \<inter> set objectPrototypeNames = {}"
    by (simp add: objectPrototypeNames_def)
  have ord: "\<forall>es1 n old es2. ?mp = es1 @ (n, old) # es2 \<and> n \<noteq> old \<longrightarrow> n \<notin> set (map snd es2)"
    by (auto simp: Cons_eq_append_conv)
  have p2: "''__proto__'' \<notin> fst ` set ?mp2" by simp
  have d2: "distinct (map fst ?mp2) \<and> set (map snd ?mp2) \<inter> set objectPrototypeNames = {}"
    by (simp add: objectPrototypeNames_def)
  have ord2: "\<forall>es1 n old es2. ?mp2 = es1 @ (n, old) # es2 \<and> n \<noteq> old \<longrightarrow> n \<notin> set (map snd es2)"
    by (auto simp: Cons_eq_append_conv)
  from mapping_adds_fields [OF p, of ?items]
  obtain out where o1: "applyMappingRule (JArr ?items) ?mp = Inr (JArr (map JObj out))"
    and o3: "\<forall>i<length ?items. \<forall>k.
             (map_of (ownProps (?items ! i)) k \<noteq> None \<longrightarrow> map_of (out ! i) k \<noteq> None) \<and>
             (distinct (map fst ?mp) \<and> set (map snd ?mp) \<inter> set objectPrototypeNames = {} \<and>
              (\<forall>es1 n old es2. ?mp = es1 @ (n, old) # es2 \<and> n \<noteq> old \<longrightarrow>
                 n \<notin> set (map snd es2)) \<longrightarrow>
                map_of (out ! i) k =
                  (case map_of ?mp k of
                     Some old \<Rightarrow>
                       (case map_of (ownProps (?items ! i)) old of
                          Some v \<Rightarrow> Some v
                        | None \<Rightarrow> map_of (ownProps (?items ! i)) k)
                   | None \<Rightarrow> map_of (ownProps (?items ! i)) k))"
    by blast
  from o3 d ord have "\<forall>k. map_of (out ! 0) k =
                  (case map_of ?mp k of
                     Some old \<Rightarrow>
                       (case map_of (ownProps (?items ! 0)) old of
                          Some v \<Rightarrow> Some v
                        | None \<Rightarrow> map_of (ownProps (?items ! 0)) k)
                   | None \<Rightarrow> map_of (ownProps (?items ! 0)) k)"
    by simp
  then have v1: "map_of (out ! 0) ''fullName'' = Some (JStr ''Alice'')"
    "map_of (out ! 0) ''name'' = Some (JStr ''Alice'')"
    by simp_all
  have r1: "applyMappingRule (JArr ?items) ?mp
     = Inr (JArr [JObj [(''name'', JStr ''Alice''), (''fullName'', JStr ''Alice'')]])"
    by (simp add: applyMappingRule_def rethrow_def object_defs)
  from mapping_adds_fields [OF p2, of ?items2]
  obtain out2 where q1: "applyMappingRule (JArr ?items2) ?mp2 = Inr (JArr (map JObj out2))"
    and q3: "\<forall>i<length ?items2. \<forall>k.
             (map_of (ownProps (?items2 ! i)) k \<noteq> None \<longrightarrow> map_of (out2 ! i) k \<noteq> None) \<and>
             (distinct (map fst ?mp2) \<and> set (map snd ?mp2) \<inter> set objectPrototypeNames = {} \<and>
              (\<forall>es1 n old es2. ?mp2 = es1 @ (n, old) # es2 \<and> n \<noteq> old \<longrightarrow>
                 n \<notin> set (map snd es2)) \<longrightarrow>
                map_of (out2 ! i) k =
                  (case map_of ?mp2 k of
                     Some old \<Rightarrow>
                       (case map_of (ownProps (?items2 ! i)) old of
                          Some v \<Rightarrow> Some v
                        | None \<Rightarrow> map_of (ownProps (?items2 ! i)) k)
                   | None \<Rightarrow> map_of (ownProps (?items2 ! i)) k))"
    by blast
  from q3 d2 ord2 have "\<forall>k. map_of (out2 ! 0) k =
                  (case map_of ?mp2 k of
                     Some old \<Rightarrow>
                       (case map_of (ownProps (?items2 ! 0)) old of
                          Some v \<Rightarrow> Some v
                        | None \<Rightarrow> map_of (ownProps (?items2 ! 0)) k)
                   | None \<Rightarrow> map_of (ownProps (?items2 ! 0)) k)"
    by simp
  then have v2: "map_of (out2 ! 0) ''c'' = Some (JNum 1)"
    "map_of (out2 ! 0) ''a'' = Some (JNum 2)" "map_of (out2 ! 0) ''b'' = Some (JNum 2)"
    by simp_all
  have r2: "applyMappingRule (JArr ?items2) ?mp2
     = Inr (JArr [JObj [(''a'', JNum 2), (''b'', JNum 2), (''c'', JNum 1)]])"
    by (simp add: applyMappingRule_def rethrow_def object_defs)
  from p d r1 o1 v1 r2 q1 v2 show ?thesis by blast
qed

section \<open>The flattener\<close>

lemma addKey_set: "set (addKey keys key) = insert key (set keys)"
  by (auto simp: addKey_def)

lemma addKey_distinct: "distinct keys \<Longrightarrow> distinct (addKey keys key)"
  by (simp add: addKey_def)

lemma foldl_addKey_set: "set (foldl addKey keys ks) = set keys \<union> set ks"
  by (induction ks arbitrary: keys) (auto simp: addKey_set)

lemma foldl_addKey_distinct: "distinct keys \<Longrightarrow> distinct (foldl addKey keys ks)"
  by (induction ks arbitrary: keys) (auto simp: addKey_distinct)

lemma allKeys_step_set:
  "set (foldl (\<lambda>keys item.
              if isObjectLike item then foldl addKey keys (map fst (ownProps item)) else keys)
         acc jsonData) =
   set acc \<union> (\<Union>item\<in>{i \<in> set jsonData. isObjectLike i}. fst ` set (ownProps item))"
  by (induction jsonData arbitrary: acc) (auto simp: foldl_addKey_set)

lemma allKeys_step_distinct:
  "distinct acc \<Longrightarrow>
   distinct (foldl (\<lambda>keys item.
              if isObjectLike item then foldl addKey keys (map fst (ownProps item)) else keys)
         acc jsonData)"
  by (induction jsonData arbitrary: acc) (auto simp: foldl_addKey_distinct)

lemma allKeys_set:
  "set (allKeys jsonData) =
     (\<Union>item\<in>{i \<in> set jsonData. isObjectLike i}. fst ` set (ownProps item))"
  by (simp add: allKeys_def allKeys_step_set)

lemma allKeys_distinct: "distinct (allKeys jsonData)"
  by (simp add: allKeys_def allKeys_step_distinct)

lemma assignAll_plain:
  "''__proto__'' \<notin> fst ` set es \<Longrightarrow>
   assignAll es (JObj kvs) = Some (JObj (foldl (\<lambda>acc (k, v). putOwn k v acc) kvs es))"
proof (induction es arbitrary: kvs)
  case Nil
  then show ?case by simp
next
  case (Cons e es)
  obtain k v where e: "e = (k, v)" by (cases e)
  with Cons.prems have "k \<noteq> ''__proto__''" and "''__proto__'' \<notin> fst ` set es" by auto
  with Cons.IH [of "putOwn k v kvs"] e show ?case
    by (simp add: assignTo_plain)
qed

lemma map_of_foldl_putOwn:
  "distinct (map fst es) \<Longrightarrow>
   map_of (foldl (\<lambda>acc (k, v). putOwn k v acc) kvs es) key =
     (case map_of es key of Some v \<Rightarrow> Some v | None \<Rightarrow> map_of kvs key)"
proof (induction es arbitrary: kvs)
  case Nil
  then show ?case by simp
next
  case (Cons e es)
  obtain k v where e: "e = (k, v)" by (cases e)
  from Cons.prems e have d: "distinct (map fst es)" and nk: "map_of es k = None"
    by (auto simp: map_of_eq_None_iff)
  show ?case
    using Cons.IH [OF d, of "putOwn k v kvs"] e nk
    by (auto simp: map_of_putOwn split: option.splits)
qed

lemma map_of_blank:
  "map_of (map (\<lambda>key. (key, JStr [])) keys) key = (if key \<in> set keys then Some (JStr []) else None)"
  by (induction keys) simp_all

lemma blank_record:
  assumes "distinct keys"
  shows "map_of (foldl (\<lambda>acc (k, v). putOwn k v acc) [] (map (\<lambda>key. (key, JStr [])) keys)) key =
           (if key \<in> set keys then Some (JStr []) else None)"
proof -
  have "distinct (map fst (map (\<lambda>key. (key, JStr [])) keys))"
    using assms by (simp add: comp_def)
  from map_of_foldl_putOwn [OF this, of "[]" key] show ?thesis
    by (simp add: map_of_blank)
qed

lemma copied_record:
  assumes "distinct (map fst entries)"
  shows "map_of (foldl (\<lambda>acc (k, v). putOwn k v acc) kvs
            (map (\<lambda>(key, val). (key, if isObjectLike val then JStr (stringify val) else val)) entries))
           key =
         (case map_of entries key of
            Some v \<Rightarrow> Some (if isObjectLike v then JStr (stringify v) else v)
          | None \<Rightarrow> map_of kvs key)"
proof -
  have "distinct (map fst
      (map (\<lambda>(key, val). (key, if isObjectLike val then JStr (stringify val) else val)) entries))"
    using assms by (simp add: comp_def case_prod_beta)
  from map_of_foldl_putOwn [OF this, of kvs key] show ?thesis
    by (simp add: map_of_map split: option.splits)
qed

lemma keys_of_record: "set (map fst kvs) = {key. map_of kvs key \<noteq> None}"
  by (auto simp: map_of_eq_None_iff)

lemma flattenItem_ordinary:
  assumes "''__proto__'' \<notin> set keys" and "distinct keys"
    and "isObjectLike item \<longrightarrow> fst ` set (ownProps item) \<subseteq> set keys"
    and "distinct (map fst (ownProps item))"
  shows "\<exists>kvs. flattenItem stringify keys item = Some (JObj kvs) \<and>
           set (map fst kvs) = set keys \<and>
           (\<forall>key\<in>set keys.
              map_of kvs key =
                Some (case (if isObjectLike item then map_of (ownProps item) key else None) of
                        None \<Rightarrow> JStr []
                      | Some v \<Rightarrow> if isObjectLike v then JStr (stringify v) else v))"
proof -
  define blank where "blank = map (\<lambda>key. (key, JStr [])) keys"
  define copy where
    "copy = map (\<lambda>(key, val). (key, if isObjectLike val then JStr (stringify val) else val))
              (ownProps item)"
  define flat0 where "flat0 = foldl (\<lambda>acc (k, v). putOwn k v acc) [] blank"
  define flat1 where "flat1 = foldl (\<lambda>acc (k, v). putOwn k v acc) flat0 copy"
  have b0: "''__proto__'' \<notin> fst ` set blank"
    using assms(1) by (auto simp: blank_def)
  have init: "assignAll blank (JObj []) = Some (JObj flat0)"
    unfolding flat0_def by (rule assignAll_plain [OF b0])
  have m0: "map_of flat0 key = (if key \<in> set keys then Some (JStr []) else None)" for key
    unfolding flat0_def blank_def by (rule blank_record [OF assms(2)])
  have k0: "set (map fst flat0) = set keys"
    unfolding keys_of_record by (simp add: m0)
  show ?thesis
  proof (cases "isObjectLike item")
    case False
    have "flattenItem stringify keys item = Some (JObj flat0)"
      using False init by (simp add: flattenItem_def blank_def)
    with k0 m0 False show ?thesis by simp
  next
    case True
    with assms(3) have sub: "fst ` set (ownProps item) \<subseteq> set keys" by simp
    have c0: "''__proto__'' \<notin> fst ` set copy"
      using sub assms(1) by (auto simp: copy_def)
    have run1: "assignAll copy (JObj flat0) = Some (JObj flat1)"
      unfolding flat1_def by (rule assignAll_plain [OF c0])
    have run: "flattenItem stringify keys item = Some (JObj flat1)"
      using True init run1 by (simp add: flattenItem_def blank_def copy_def)
    have m1: "map_of flat1 key =
        (case map_of (ownProps item) key of
           Some v \<Rightarrow> Some (if isObjectLike v then JStr (stringify v) else v)
         | None \<Rightarrow> map_of flat0 key)" for key
      unfolding flat1_def copy_def by (rule copied_record [OF assms(4)])
    have inkeys: "key \<in> set keys" if "map_of (ownProps item) key = Some v" for key v
    proof -
      from that have "key \<in> fst ` set (ownProps item)"
        by (metis map_of_SomeD image_eqI fst_conv)
      with sub show ?thesis by auto
    qed
    have k1: "set (map fst flat1) = set keys"
      unfolding keys_of_record using inkeys by (auto simp: m1 m0 split: option.splits)
    have v1: "\<forall>key\<in>set keys.
              map_of flat1 key =
                Some (case map_of (ownProps item) key of
                        None \<Rightarrow> JStr []
                      | Some v \<Rightarrow> if isObjectLike v then JStr (stringify v) else v)"
      by (simp add: m1 m0 split: option.splits)
    from run k1 v1 True show ?thesis by simp
  qed
qed

lemma flattenAll_ordinary:
  assumes "''__proto__'' \<notin> set keys" and "distinct keys"
    and "\<forall>item\<in>set items. (isObjectLike item \<longrightarrow> fst ` set (ownProps item) \<subseteq> set keys) \<and>
                            distinct (map fst (ownProps item))"
  shows "\<exists>records. flattenAll stringify keys items = Some (map JObj records) \<and>
           length records = length items \<and>
           (\<forall>i<length items.
              set (map fst (records ! i)) = set keys \<and>
              (\<forall>key\<in>set keys.
                 map_of (records ! i) key =
                   Some (case (if isObjectLike (items ! i)
                               then map_of (ownProps (items ! i)) key else None) of
                           None \<Rightarrow> JStr []
                         | Some v \<Rightarrow> if isObjectLike v then JStr (stringify v) else v)))"
  using assms(3)
proof (induction items)
  case Nil
  then show ?case by simp
next
  case (Cons item items)
  from Cons.prems have hd: "isObjectLike item \<longrightarrow> fst ` set (ownProps item) \<subseteq> set keys"
    and hd': "distinct (map fst (ownProps item))" by simp_all
  from flattenItem_ordinary [OF assms(1,2) hd hd', of stringify] obtain kvs where
    h: "flattenItem stringify keys item = Some (JObj kvs)" "set (map fst kvs) = set keys"
       "\<forall>key\<in>set keys.
              map_of kvs key =
                Some (case (if isObjectLike item then map_of (ownProps item) key else None) of
                        None \<Rightarrow> JStr []
                      | Some v \<Rightarrow> if isObjectLike v then JStr (stringify v) else v)"
    by blast
  from Cons.IH Cons.prems obtain records where
    t: "flattenAll stringify keys items = Some (map JObj records)"
       "length records = length items"
       "\<forall>i<length items.
              set (map fst (records ! i)) = set keys \<and>
              (\<forall>key\<in>set keys.
                 map_of (records ! i) key =
                   Some (case (if isObjectLike (items ! i)
                               then map_of (ownProps (items ! i)) key else None) of
                           None \<Rightarrow> JStr []
                         | Some v \<Rightarrow> if isObjectLike v then JStr (stringify v) else v))"
    by auto
  have "\<forall>i<length (item # items).
              set (map fst ((kvs # records) ! i)) = set keys \<and>
              (\<forall>key\<in>set keys.
                 map_of ((kvs # records) ! i) key =
                   Some (case (if isObjectLike ((item # items) ! i)
                               then map_of (ownProps ((item # items) ! i)) key else None) of
                           None \<Rightarrow> JStr []
                         | Some v \<Rightarrow> if isObjectLike v then JStr (stringify v) else v))"
  proof (intro allI impI)
    fix i assume "i < length (item # items)"
    then show "set (map fst ((kvs # records) ! i)) = set keys \<and>
              (\<forall>key\<in>set keys.
                 map_of ((kvs # records) ! i) key =
                   Some (case (if isObjectLike ((item # items) ! i)
                               then map_of (ownProps ((item # items) ! i)) key else None) of
                           None \<Rightarrow> JStr []
                         | Some v \<Rightarrow> if isObjectLike v then JStr (stringify v) else v))"
      using h(2,3) t(3) by (cases i) simp_all
  qed
  with h(1) t(1,2) show ?case
    by (intro exI [of _ "kvs # records"]) simp
qed

lemma flattener_ordinary_keys:
  assumes "''__proto__'' \<notin> set (allKeys items)"
    and "\<forall>item\<in>set items. distinct (map fst (ownProps item))"
  shows "\<exists>records. flattenAll stringify (allKeys items) items = Some (map JObj records) \<and>
           length records = length items \<and>
           (\<forall>i<length items.
              set (map fst (records ! i)) = set (allKeys items) \<and>
              (\<forall>key\<in>set (allKeys items).
                 map_of (records ! i) key =
                   Some (case (if isObjectLike (items ! i)
                               then map_of (ownProps (items ! i)) key else None) of
                           None \<Rightarrow> JStr []
                         | Some v \<Rightarrow> if isObjectLike v then JStr (stringify v) else v)))"
proof (rule flattenAll_ordinary [OF assms(1) allKeys_distinct])
  show "\<forall>item\<in>set items.
       (isObjectLike item \<longrightarrow> fst ` set (ownProps item) \<subseteq> set (allKeys items)) \<and>
       distinct (map fst (ownProps item))"
    using assms(2) by (auto simp: allKeys_set)
qed

text \<open>
  Claim C3 holds for arrays in which no object has a key \<^verbatim>\<open>__proto__\<close>
  (\<open>flattener_ordinary_keys\<close>: every record has exactly the union columns, with the
  item's value, its JSON text when it is an object or an array, or the empty string).
  It fails on the key \<^verbatim>\<open>__proto__\<close>, which \<^verbatim>\<open>JSON.parse\<close> creates as an own property:
  the key is in the union, but \<^verbatim>\<open>flatItem['__proto__'] = ...\<close> on the fresh
  \<^verbatim>\<open>{}\<close> goes to the setter inherited from \<^verbatim>\<open>Object.prototype\<close>, which ignores a
  primitive, so the record that was meant to be initialised ``with all keys to ensure
  consistent columns'' has no such column. The stand-in for the CSV writer prints the
  column names of each record.
\<close>

theorem flattener_drops_proto_column:
  \<open>allKeys [JObj [(''__proto__'', JNum 1), (''a'', JNum 2)]] = [''__proto__'', ''a'']
   \<and> flattenAll (\<lambda>v. []) [''__proto__'', ''a''] [JObj [(''__proto__'', JNum 1), (''a'', JNum 2)]]
       = Some [JObj [(''a'', JNum 2)]]
   \<and> jsonToCsv
        (\<lambda>s. if s = ''[{"__proto__":1,"a":2}]''
              then Inr (JArr [JObj [(''__proto__'', JNum 1), (''a'', JNum 2)]])
              else Inl (Error ''Unexpected token''))
        (\<lambda>v. [])
        (\<lambda>records d. Inr (concat (map (concat \<circ> map fst \<circ> ownProps) records)))
        ''[{"__proto__":1,"a":2}]'' '',''
       = Some (Inr ''a'')\<close>
proof -
  let ?items = "[JObj [(''__proto__'', JNum 1), (''a'', JNum 2)]]"
  have keys: "allKeys ?items = [''__proto__'', ''a'']"
    by (simp add: allKeys_def addKey_def)
  have flat: "flattenAll (\<lambda>v. []) [''__proto__'', ''a''] ?items = Some [JObj [(''a'', JNum 2)]]"
    by (simp add: flattenItem_def object_defs)
  from keys flat show ?thesis
    by (subst jsonToCsv.simps) (simp add: arrayToCsv_def rethrow_def)
qed

section \<open>A single object, a primitive\<close>

lemma jsonToCsv_single_object:
  assumes "parseJson jsonString = Inr (JObj kvs)"
    and "parseJson (stringify (JArr [JObj kvs])) = Inr (JArr [JObj kvs])"
  shows "jsonToCsv parseJson stringify csvStringify jsonString delimiter =
           Some (rethrow ''Failed to convert JSON to CSV: ''
                   (arrayToCsv stringify csvStringify [JObj kvs] delimiter))"
proof -
  have "jsonToCsv parseJson stringify csvStringify (stringify (JArr [JObj kvs])) delimiter =
          Some (arrayToCsv stringify csvStringify [JObj kvs] delimiter)"
    using assms(2) by (subst jsonToCsv.simps) simp
  with assms(1) show ?thesis
    by (subst jsonToCsv.simps) simp
qed

lemma jsonToCsv_primitive:
  assumes "parseJson jsonString = Inr v" and "\<not> isObjectLike v"
  shows "jsonToCsv parseJson stringify csvStringify jsonString delimiter =
           Some (Inl (Error (''Failed to convert JSON to CSV: '' @
             ''Invalid JSON structure. Expected an array of objects or a single object.'')))"
  using assms by (subst jsonToCsv.simps) (cases v; simp add: rethrow_def)

lemma jsonToExcel_primitive:
  assumes "disk jsonFilePath = Some jsonString" and "parseJson jsonString = Inr v"
    and "\<not> isObjectLike v"
  shows "jsonToExcel parseJson stringify toWorkbook disk jsonFilePath outputPath =
           Some (Inl (Error (''Failed to convert JSON to Excel: '' @
             ''Invalid JSON structure. Expected an array of objects or a single object.'')))"
  using assms by (subst jsonToExcel.simps) (cases v; simp add: rethrow_def readFileSync_def)

lemma jsonToExcel_array:
  assumes "disk jsonFilePath = Some jsonString" and "parseJson jsonString = Inr (JArr items)"
    and "toWorkbook items = Inr bytes"
  shows "jsonToExcel parseJson stringify toWorkbook disk jsonFilePath outputPath =
           Some (Inr (disk(outputPath \<mapsto> bytes)))"
  using assms by (subst jsonToExcel.simps) (simp add: readFileSync_def writeWorkbook_def)

lemma jsonToExcel_single_object:
  assumes "disk jsonFilePath = Some jsonString" and "parseJson jsonString = Inr (JObj kvs)"
    and "disk (stringify (JArr [JObj kvs])) = None"
  shows "jsonToExcel parseJson stringify toWorkbook disk jsonFilePath outputPath =
           Some (Inl (Error (''Failed to convert JSON to Excel: '' @
             ''Failed to convert JSON to Excel: '' @
             ''ENOENT: no such file or directory, open '' @
             [CHR 0x27] @ stringify (JArr [JObj kvs]) @ [CHR 0x27])))"
proof -
  have "jsonToExcel parseJson stringify toWorkbook disk (stringify (JArr [JObj kvs])) outputPath =
          Some (Inl (Error (''Failed to convert JSON to Excel: '' @
             ''ENOENT: no such file or directory, open '' @
             [CHR 0x27] @ stringify (JArr [JObj kvs]) @ [CHR 0x27])))"
    using assms(3) by (subst jsonToExcel.simps) (simp add: readFileSync_def rethrow_def)
  with assms(1,2) show ?thesis
    by (subst jsonToExcel.simps) (simp add: readFileSync_def rethrow_def)
qed

text \<open>
  Claim C4 holds on the CSV path (\<open>jsonToCsv_single_object\<close>, \<open>jsonToCsv_primitive\<close>) and
  for primitives on the Excel path (\<open>jsonToExcel_primitive\<close>), but not for a single object
  on the Excel path: \<^verbatim>\<open>jsonToExcel\<close> takes the path of a file, and its single-object branch
  calls it with the JSON text of the one-element array in the place of the path. On a
  file \<open>data.json\<close> that holds \<open>{"a":1}\<close> the call fails with ENOENT, whereas on a file
  that holds \<open>[{"a":1}]\<close> it writes the workbook.
\<close>

theorem jsonToExcel_single_object_fails:
  \<open>jsonToExcel
     (\<lambda>s. if s = ''{"a":1}'' then Inr (JObj [(''a'', JNum 1)])
          else if s = ''[{"a":1}]'' then Inr (JArr [JObj [(''a'', JNum 1)]])
          else Inl (Error ''Unexpected token''))
     (\<lambda>v. if v = JArr [JObj [(''a'', JNum 1)]] then ''[{"a":1}]'' else '''')
     (\<lambda>items. Inr ''workbook'')
     [''data.json'' \<mapsto> ''{"a":1}''] ''data.json'' ''data.xlsx''
   = Some (Inl (Error (''Failed to convert JSON to Excel: Failed to convert JSON to Excel: '' @
                       ''ENOENT: no such file or directory, open '' @
                       [CHR 0x27] @ ''[{"a":1}]'' @ [CHR 0x27])))
   \<and> jsonToExcel
     (\<lambda>s. if s = ''{"a":1}'' then Inr (JObj [(''a'', JNum 1)])
          else if s = ''[{"a":1}]'' then Inr (JArr [JObj [(''a'', JNum 1)]])
          else Inl (Error ''Unexpected token''))
     (\<lambda>v. if v = JArr [JObj [(''a'', JNum 1)]] then ''[{"a":1}]'' else '''')
     (\<lambda>items. Inr ''workbook'')
     [''data.json'' \<mapsto> ''[{"a":1}]''] ''data.json'' ''data.xlsx''
   = Some (Inr [''data.json'' \<mapsto> ''[{"a":1}]'', ''data.xlsx'' \<mapsto> ''workbook''])\<close>
proof -
  let ?parse = \<open>\<lambda>s. if s = ''{"a":1}'' then Inr (JObj [(''a'', JNum 1)])
          else if s = ''[{"a":1}]'' then Inr (JArr [JObj [(''a'', JNum 1)]])
          else (Inl (Error ''Unexpected token'') :: exn + jsval)\<close>
  let ?str = \<open>\<lambda>v. if v = JArr [JObj [(''a'', JNum 1)]] then ''[{"a":1}]'' else ''''\<close>
  let ?wb = "\<lambda>items :: jsval list. (Inr ''workbook'' :: exn + string)"
  have a: \<open>jsonToExcel ?parse ?str ?wb [''data.json'' \<mapsto> ''{"a":1}''] ''data.json'' ''data.xlsx''
     = Some (Inl (Error (''Failed to convert JSON to Excel: '' @
             ''Failed to convert JSON to Excel: '' @
             ''ENOENT: no such file or directory, open '' @
             [CHR 0x27] @ ?str (JArr [JObj [(''a'', JNum 1)]]) @ [CHR 0x27])))\<close>
    by (rule jsonToExcel_single_object [where jsonString = \<open>''{"a":1}''\<close>]) simp_all
  have b: \<open>jsonToExcel ?parse ?str ?wb [''data.json'' \<mapsto> ''[{"a":1}]''] ''data.json'' ''data.xlsx''
     = Some (Inr ([''data.json'' \<mapsto> ''[{"a":1}]''](''data.xlsx'' \<mapsto> ''workbook'')))\<close>
    by (rule jsonToExcel_array [where jsonString = \<open>''[{"a":1}]''\<close>
          and items = "[JObj [(''a'', JNum 1)]]"]) simp_all
  from a b show ?thesis by simp
qed


section \<open>Skipped units of a batch\<close>

text \<open>
  Claim C9. A unit whose file type is the target format, or whose output path exists
  while \<open>overwriteFiles\<close> is off, only increments \<open>skipped\<close>: \<open>completed\<close>, \<open>failed\<close>, the
  error list and the file system stay as they are, whatever the host would do on a
  conversion, and the loop goes on to the next unit.
\<close>

theorem same_format_or_existing_output_is_skipped:
  assumes "(fileType file = Csv \<and> targetFormat options = ToCsv) \<or>
           (fileType file = Json \<and> targetFormat options = ToJson) \<or>
           (fileType file = Excel \<and> targetFormat options = ToExcel) \<or>
           (existsSync (files st)
              (replaceExtension (filePath file) (getFileExtension (targetFormat options))) \<and>
            \<not> overwriteFiles options)"
  shows "convertUnit h file options st = (Skipped, st\<lparr>skipped := skipped st + 1\<rparr>)
       \<and> (\<not> isCancellationRequested u i \<and> (isPaused st \<longrightarrow> resumeResponse u i) \<longrightarrow>
            convertLoop h u batchSize options i (file # rest) st =
              convertLoop h u batchSize options (i + 1) rest
                (st\<lparr>isPaused := False, skipped := skipped st + 1\<rparr>))"
proof -
  have unit: "convertUnit h file options s = (Skipped, s\<lparr>skipped := skipped s + 1\<rparr>)"
    if "files s = files st" for s
    using assms that by (auto simp: convertUnit_def Let_def)
  from unit [of st] unit [of "st\<lparr>isPaused := False\<rparr>"] show ?thesis
    by auto
qed

theorem same_format_or_existing_output_is_skipped_witness:
  "convertFiles
     \<lparr>runCommand = (\<lambda>commandId path disk. (None, disk(path \<mapsto> ''converted''))),
      postProcess = (\<lambda>path options disk. (None, disk))\<rparr>
     \<lparr>isCancellationRequested = (\<lambda>i. False), resumeResponse = (\<lambda>i. True),
      continueResponse = (\<lambda>i. Continue), continueAfterErrors = (\<lambda>i. True)\<rparr>
     5 [''/data/b.csv'' \<mapsto> ''old'']
     [\<lparr>filePath = ''/data/a.csv'', fileName = ''a.csv'', fileType = Csv, selected = True\<rparr>,
      \<lparr>filePath = ''/data/b.JSON'', fileName = ''b.JSON'', fileType = Json, selected = True\<rparr>]
     \<lparr>targetFormat = ToCsv, preserveTypes = True, overwriteFiles = False,
      customTransformation = None, yamlTransformationPath = None\<rparr>
   = (Finished,
      \<lparr>completed = 0, skipped = 2, failed = 0, errors = [],
       files = [''/data/b.csv'' \<mapsto> ''old''], isPaused = False\<rparr>)"
proof -
  let ?h = "\<lparr>runCommand = (\<lambda>commandId path (disk::fs). (None :: exn option, disk(path \<mapsto> ''converted''))),
      postProcess = (\<lambda>path (options::ConversionOptions) (disk::fs). (None :: exn option, disk))\<rparr>"
  let ?u = "\<lparr>isCancellationRequested = (\<lambda>i::nat. False), resumeResponse = (\<lambda>i::nat. True),
      continueResponse = (\<lambda>i::nat. Continue), continueAfterErrors = (\<lambda>i::nat. True)\<rparr>"
  let ?a = "\<lparr>filePath = ''/data/a.csv'', fileName = ''a.csv'', fileType = Csv, selected = True\<rparr>"
  let ?b = "\<lparr>filePath = ''/data/b.JSON'', fileName = ''b.JSON'', fileType = Json, selected = True\<rparr>"
  let ?o = "\<lparr>targetFormat = ToCsv, preserveTypes = True, overwriteFiles = False,
      customTransformation = None, yamlTransformationPath = None\<rparr>"
  let ?st0 = "\<lparr>completed = 0, skipped = 0, failed = 0, errors = [],
       files = [''/data/b.csv'' \<mapsto> ''old''], isPaused = False\<rparr>"
  let ?st1 = "?st0\<lparr>isPaused := False, skipped := skipped ?st0 + 1\<rparr>"
  have ha: "(fileType ?a = Csv \<and> targetFormat ?o = ToCsv) \<or>
           (fileType ?a = Json \<and> targetFormat ?o = ToJson) \<or>
           (fileType ?a = Excel \<and> targetFormat ?o = ToExcel) \<or>
           (existsSync (files ?st0)
              (replaceExtension (filePath ?a) (getFileExtension (targetFormat ?o))) \<and>
            \<not> overwriteFiles ?o)"
    by simp
  have rb: "replaceExtension ''/data/b.JSON'' ''.csv'' = ''/data/b.csv''"
    by code_simp
  have hb: "(fileType ?b = Csv \<and> targetFormat ?o = ToCsv) \<or>
           (fileType ?b = Json \<and> targetFormat ?o = ToJson) \<or>
           (fileType ?b = Excel \<and> targetFormat ?o = ToExcel) \<or>
           (existsSync (files ?st1)
              (replaceExtension (filePath ?b) (getFileExtension (targetFormat ?o))) \<and>
            \<not> overwriteFiles ?o)"
    by (simp add: existsSync_def rb)
  have s1: "convertLoop ?h ?u 5 ?o 0 [?a, ?b] ?st0 = convertLoop ?h ?u 5 ?o (0 + 1) [?b] ?st1"
    using same_format_or_existing_output_is_skipped [OF ha, of ?h ?u 0 5 "[?b]"] by simp
  have s2: "convertLoop ?h ?u 5 ?o (0 + 1) [?b] ?st1 =
      convertLoop ?h ?u 5 ?o (0 + 1 + 1) [] (?st1\<lparr>isPaused := False, skipped := skipped ?st1 + 1\<rparr>)"
    using same_format_or_existing_output_is_skipped [OF hb, of ?h ?u "0 + 1" 5 "[]"] by simp
  from s1 s2 show ?thesis
    by (simp add: convertFiles_def)
qed

end
